theory Spec2Isabelle
  imports Main
begin

section \<open>JavaScript values\<close>

text \<open>
  The SDK passes plain data around: option hashmaps, offers, receipts, configuration
  tables. They are modelled as JSON-like values extended with BigInt. A Number is kept
  as the integer it holds (amounts, ids, status codes and page numbers are integral);
  Numbers with a fractional part, NaN and the infinities are outside the model.
  An object is an association list of its own properties, in the order written.
\<close>

datatype jsval =
    JUndefined
  | JNull
  | JBool bool
  | JNumber int
  | JBigInt int
  | JString string
  | JArray "jsval list"
  | JObject "(string \<times> jsval) list"

text \<open>What a \<open>throw\<close> carries: the engine's TypeError, or any value thrown by a collaborator.\<close>

datatype exn = TypeError | Thrown jsval

definition thenE :: "exn + 'a \<Rightarrow> ('a \<Rightarrow> exn + 'b) \<Rightarrow> exn + 'b" where
  "thenE m f = (case m of Inl e \<Rightarrow> Inl e | Inr x \<Rightarrow> f x)"

text \<open>\<open>v.k\<close>: reading a property of \<open>undefined\<close> or \<open>null\<close> throws a TypeError; a missing
  property reads as \<open>undefined\<close>.\<close>

definition get_prop :: "jsval \<Rightarrow> string \<Rightarrow> exn + jsval" where
  "get_prop v k =
     (case v of
        JUndefined \<Rightarrow> Inl TypeError
      | JNull \<Rightarrow> Inl TypeError
      | JObject fs \<Rightarrow> Inr (case map_of fs k of None \<Rightarrow> JUndefined | Some x \<Rightarrow> x)
      | _ \<Rightarrow> Inr JUndefined)"

text \<open>\<open>v?.k\<close>: optional chaining never throws.\<close>

definition opt_prop :: "jsval \<Rightarrow> string \<Rightarrow> jsval" where
  "opt_prop v k =
     (case v of
        JObject fs \<Rightarrow> (case map_of fs k of None \<Rightarrow> JUndefined | Some x \<Rightarrow> x)
      | _ \<Rightarrow> JUndefined)"

text \<open>\<open>v.k1.k2...\<close>, left to right.\<close>

fun get_path :: "jsval \<Rightarrow> string list \<Rightarrow> exn + jsval" where
  "get_path v [] = Inr v"
| "get_path v (k # ks) = (case get_prop v k of Inl e \<Rightarrow> Inl e | Inr w \<Rightarrow> get_path w ks)"

text \<open>ToBoolean, as used by \<open>!\<close> and \<open>||\<close>.\<close>

fun truthy :: "jsval \<Rightarrow> bool" where
  "truthy JUndefined = False"
| "truthy JNull = False"
| "truthy (JBool b) = b"
| "truthy (JNumber n) = (n \<noteq> 0)"
| "truthy (JBigInt n) = (n \<noteq> 0)"
| "truthy (JString s) = (s \<noteq> [])"
| "truthy (JArray xs) = True"
| "truthy (JObject fs) = True"

text \<open>\<open>a || b\<close> on values already computed.\<close>

definition js_or :: "jsval \<Rightarrow> jsval \<Rightarrow> jsval" where
  "js_or a b = (if truthy a then a else b)"

section \<open>Numbers and their decimal strings\<close>

definition digit_char :: "nat \<Rightarrow> char" where
  "digit_char d = ''0123456789'' ! d"

fun dec_digits :: "nat \<Rightarrow> string" where
  "dec_digits n = (if n < 10 then [digit_char n] else dec_digits (n div 10) @ [digit_char (n mod 10)])"

declare dec_digits.simps [simp del]

fun bit_length :: "nat \<Rightarrow> nat" where
  "bit_length n = (if n = 0 then 0 else 1 + bit_length (n div 2))"

declare bit_length.simps [simp del]

text \<open>The IEEE-754 binary64 value nearest to a natural number (round to nearest, ties to
  even): 53 significant bits are kept.\<close>

definition round_to_double :: "nat \<Rightarrow> nat" where
  "round_to_double v =
     (let b = bit_length v in
      if b \<le> 53 then v
      else
        let sh = b - 53; q = v div 2 ^ sh; r = v mod 2 ^ sh; h = 2 ^ (sh - 1) in
        if h < r \<or> (r = h \<and> odd q) then (q + 1) * 2 ^ sh else q * 2 ^ sh)"

text \<open>The integers a Number can hold exactly.\<close>

definition is_double :: "int \<Rightarrow> bool" where
  "is_double n = (round_to_double (nat \<bar>n\<bar>) = nat \<bar>n\<bar> \<and> \<bar>n\<bar> < 2 ^ 1024)"

text \<open>
  Number::toString, step 5 (ECMA-262): the decimal \<open>s * 10 ^ (n - k)\<close> with the fewest
  significant digits \<open>k\<close> that still reads back as \<open>x\<close>; among several with that \<open>k\<close>,
  the closest to \<open>x\<close>, and the even one on a tie. \<open>D\<close> is the number of decimal
  digits of \<open>x\<close>. For an integral \<open>x\<close> the candidates with \<open>k\<close> digits are the two
  multiples of \<open>10 ^ (D - k)\<close> around \<open>x\<close>.
\<close>

function shortest_from :: "nat \<Rightarrow> nat \<Rightarrow> nat \<Rightarrow> nat" where
  "shortest_from x D k =
     (if D \<le> k then x
      else
        let p = 10 ^ (D - k); lo = (x div p) * p; hi = lo + p;
            lo_ok = (round_to_double lo = x); hi_ok = (round_to_double hi = x) in
        if lo_ok \<and> hi_ok then
          (if x - lo < hi - x then lo
           else if hi - x < x - lo then hi
           else if even (x div p) then lo else hi)
        else if lo_ok then lo
        else if hi_ok then hi
        else shortest_from x D (Suc k))"
  by pat_completeness auto
termination
  by (relation "measure (\<lambda>(x, D, k). D - k)") auto

declare shortest_from.simps [simp del]

definition shortest_decimal :: "nat \<Rightarrow> nat" where
  "shortest_decimal x = shortest_from x (length (dec_digits x)) 1"

definition strip_zeros :: "string \<Rightarrow> string" where
  "strip_zeros ds = rev (dropWhile (\<lambda>c. c = CHR ''0'') (rev ds))"

text \<open>Number::toString for a positive integral Number, steps 6 and 7: plain digits while
  the value has at most 21 digits, exponential notation beyond.\<close>

definition pos_number_to_string :: "nat \<Rightarrow> string" where
  "pos_number_to_string x =
     (let ds = dec_digits (shortest_decimal x); n = length ds; s = strip_zeros ds in
      if n \<le> 21 then ds
      else (if length s = 1 then s else hd s # CHR ''.'' # tl s) @ ''e+'' @ dec_digits (n - 1))"

definition number_to_string :: "int \<Rightarrow> string" where
  "number_to_string n =
     (if n = 0 then ''0''
      else if n < 0 then CHR ''-'' # pos_number_to_string (nat (- n))
      else pos_number_to_string (nat n))"

definition bigint_to_string :: "int \<Rightarrow> string" where
  "bigint_to_string n = (if n < 0 then CHR ''-'' # dec_digits (nat (- n)) else dec_digits (nat n))"

text \<open>Number.prototype.toLocaleString('fullwide', { useGrouping: false }): the same
  shortest decimal, written out in full whatever its length (locale with Latin digits).\<close>

definition number_to_locale_string :: "int \<Rightarrow> string" where
  "number_to_locale_string n =
     (if n < 0 then CHR ''-'' # dec_digits (shortest_decimal (nat (- n)))
      else dec_digits (shortest_decimal (nat n)))"

fun join_comma :: "string list \<Rightarrow> string" where
  "join_comma [] = []"
| "join_comma [s] = s"
| "join_comma (s # t # ts) = s @ CHR '','' # join_comma (t # ts)"

text \<open>\<open>String(v)\<close>.\<close>

fun js_to_string :: "jsval \<Rightarrow> string" where
  "js_to_string JUndefined = ''undefined''"
| "js_to_string JNull = ''null''"
| "js_to_string (JBool b) = (if b then ''true'' else ''false'')"
| "js_to_string (JNumber n) = number_to_string n"
| "js_to_string (JBigInt n) = bigint_to_string n"
| "js_to_string (JString s) = s"
| "js_to_string (JArray xs) =
     join_comma (map (\<lambda>x. if x = JUndefined \<or> x = JNull then [] else js_to_string x) xs)"
| "js_to_string (JObject fs) = ''[object Object]''"

text \<open>\<open>v.toLocaleString('fullwide', { useGrouping: false })\<close> on a value that has the
  method; \<open>undefined\<close> and \<open>null\<close> have none and throw.\<close>

fun to_locale_string :: "jsval \<Rightarrow> string" where
  "to_locale_string (JNumber n) = number_to_locale_string n"
| "to_locale_string (JBigInt n) = bigint_to_string n"
| "to_locale_string (JArray xs) =
     join_comma (map (\<lambda>x. if x = JUndefined \<or> x = JNull then [] else to_locale_string x) xs)"
| "to_locale_string v = js_to_string v"

definition call_toLocaleString :: "jsval \<Rightarrow> exn + jsval" where
  "call_toLocaleString v =
     (if v = JUndefined \<or> v = JNull then Inl TypeError else Inr (JString (to_locale_string v)))"

definition call_String :: "jsval \<Rightarrow> exn + jsval" where
  "call_String v = Inr (JString (js_to_string v))"

section \<open>The contract-call backend\<close>

text \<open>
  The injected collaborator of the adapters: \<open>contractFactory.create({ address, abi })\<close>
  returns a contract handle (an object) or throws; \<open>handle.call({ function, args })\<close>
  resolves with a receipt or rejects. Both may depend on everything that happened before,
  so they read the trace of backend events. An awaited promise that rejects is a throw.
\<close>

type_synonym handle = nat

datatype event =
    FactoryCreate jsval
  | ContractCall handle jsval

record backend =
  factory_create :: "event list \<Rightarrow> jsval \<Rightarrow> exn + handle"
  handle_call :: "event list \<Rightarrow> handle \<Rightarrow> jsval \<Rightarrow> exn + jsval"

text \<open>The private fields of an adapter instance; \<open>contract = None\<close> is the field still
  \<open>undefined\<close>.\<close>

record adapter =
  config :: jsval
  contractFactory :: backend
  contract :: "handle option"

text \<open>\<open>this.#contractFactory.create({ address: this.#config.<path>.address,
  abi: this.#config.<path>.abi })\<close>\<close>

definition factory_create_at ::
  "backend \<Rightarrow> jsval \<Rightarrow> string list \<Rightarrow> event list \<Rightarrow> (exn + handle) \<times> event list" where
  "factory_create_at be cfg path tr =
     (case get_path cfg (path @ [''address'']) of
        Inl e \<Rightarrow> (Inl e, tr)
      | Inr address \<Rightarrow>
          (case get_path cfg (path @ [''abi'']) of
             Inl e \<Rightarrow> (Inl e, tr)
           | Inr abi \<Rightarrow>
               (let req = JObject [(''address'', address), (''abi'', abi)]
                in (factory_create be tr req, tr @ [FactoryCreate req]))))"

text \<open>\<open>handle.call({ function: fn, args: args })\<close>\<close>

definition call_request :: "string \<Rightarrow> jsval list \<Rightarrow> jsval" where
  "call_request fn args = JObject [(''function'', JString fn), (''args'', JArray args)]"

definition contract_call ::
  "adapter \<Rightarrow> handle \<Rightarrow> string \<Rightarrow> jsval list \<Rightarrow> event list \<Rightarrow> (exn + jsval) \<times> event list" where
  "contract_call a h fn args tr =
     (let req = call_request fn args
      in (handle_call (contractFactory a) tr h req, tr @ [ContractCall h req]))"

type_synonym getter = "adapter \<Rightarrow> event list \<Rightarrow> (exn + handle) \<times> adapter \<times> event list"

text \<open>\<open>await <contract>.call({ function: fn, args: [...] })\<close>: the member expression (the
  getter) is evaluated first, then the arguments, then the call is made.\<close>

definition call_entry ::
  "getter \<Rightarrow> string \<Rightarrow> exn + jsval list \<Rightarrow> adapter \<Rightarrow> event list \<Rightarrow> (exn + jsval) \<times> adapter \<times> event list" where
  "call_entry the_contract fn args a tr =
     (case the_contract a tr of
        (Inl e, a', tr') \<Rightarrow> (Inl e, a', tr')
      | (Inr h, a', tr') \<Rightarrow>
          (case args of
             Inl e \<Rightarrow> (Inl e, a', tr')
           | Inr xs \<Rightarrow> (case contract_call a' h fn xs tr' of (r, tr'') \<Rightarrow> (r, a', tr''))))"

text \<open>\<open>result?.status === 1\<close>\<close>

definition status_is_1 :: "jsval \<Rightarrow> bool" where
  "status_is_1 result = (opt_prop result ''status'' = JNumber 1)"

definition negative_result :: jsval where
  "negative_result = JObject [(''receipt'', JNull), (''status'', JBool False)]"

text \<open>\<open>try { const result = ...; return { receipt: result, status: result?.status === 1 } }
  catch (e) { return { receipt: null, status: false } }\<close>\<close>

definition receipt_result :: "(exn + jsval) \<times> adapter \<times> event list \<Rightarrow> jsval \<times> adapter \<times> event list" where
  "receipt_result out =
     (case out of
        (Inl e, a, tr) \<Rightarrow> (negative_result, a, tr)
      | (Inr result, a, tr) \<Rightarrow>
          (JObject [(''receipt'', result), (''status'', JBool (status_is_1 result))], a, tr))"

text \<open>\<open>try { const result = ...; success = result?.status === 1 } catch (e) { success = false }
  return success\<close>\<close>

definition success_result :: "(exn + jsval) \<times> adapter \<times> event list \<Rightarrow> jsval \<times> adapter \<times> event list" where
  "success_result out =
     (case out of
        (Inl e, a, tr) \<Rightarrow> (JBool False, a, tr)
      | (Inr result, a, tr) \<Rightarrow> (JBool (status_is_1 result), a, tr))"

text \<open>The three arguments of the accept entry points: offer, signature, borrower settings.
  \<open>amount\<close> is how principal and repayment are turned into strings.\<close>

definition zero_address :: string where
  "zero_address = ''0x0000000000000000000000000000000000000000''"

definition offer_args :: "(jsval \<Rightarrow> exn + jsval) \<Rightarrow> jsval \<Rightarrow> exn + jsval list" where
  "offer_args amount options =
     thenE (get_path options [''offer'', ''terms'', ''loan'', ''currency'']) (\<lambda>currency.
     thenE (thenE (get_path options [''offer'', ''terms'', ''loan'', ''principal'']) amount) (\<lambda>principal_amount.
     thenE (thenE (get_path options [''offer'', ''terms'', ''loan'', ''repayment'']) amount) (\<lambda>repayment.
     thenE (get_path options [''offer'', ''nft'', ''address'']) (\<lambda>nft_address.
     thenE (get_path options [''offer'', ''nft'', ''id'']) (\<lambda>nft_id.
     thenE (get_path options [''offer'', ''terms'', ''loan'', ''duration'']) (\<lambda>duration.
     thenE (get_path options [''offer'', ''nftfi'', ''fee'', ''bps'']) (\<lambda>bps.
     thenE (get_path options [''offer'', ''lender'', ''address'']) (\<lambda>signer.
     thenE (get_path options [''offer'', ''lender'', ''nonce'']) (\<lambda>nonce.
     thenE (get_path options [''offer'', ''terms'', ''loan'', ''expiry'']) (\<lambda>expiry.
     thenE (get_path options [''offer'', ''signature'']) (\<lambda>signature.
     Inr [JObject [(''loanERC20Denomination'', currency),
                   (''loanPrincipalAmount'', principal_amount),
                   (''maximumRepaymentAmount'', repayment),
                   (''nftCollateralContract'', nft_address),
                   (''nftCollateralId'', nft_id),
                   (''referrer'', JString zero_address),
                   (''loanDuration'', duration),
                   (''loanAdminFeeInBasisPoints'', bps)],
          JObject [(''signer'', signer),
                   (''nonce'', nonce),
                   (''expiry'', expiry),
                   (''signature'', signature)],
          JObject [(''revenueSharePartner'', JString zero_address),
                   (''referralFeeInBasisPoints'', JNumber 0)]])))))))))))"

text \<open>\<open>[options.loan.id]\<close> and \<open>[options.offer.nonce]\<close>\<close>

definition path_arg :: "jsval \<Rightarrow> string list \<Rightarrow> exn + jsval list" where
  "path_arg options path = thenE (get_path options path) (\<lambda>v. Inr [v])"

text \<open>\<open>acceptOffer\<close>: the three arguments are built before the contract is touched.\<close>

definition accept_with ::
  "getter \<Rightarrow> string \<Rightarrow> (jsval \<Rightarrow> exn + jsval) \<Rightarrow> jsval \<Rightarrow> adapter \<Rightarrow> event list \<Rightarrow> jsval \<times> adapter \<times> event list" where
  "accept_with the_contract fn amount options a tr =
     (case offer_args amount options of
        Inl e \<Rightarrow> (negative_result, a, tr)
      | Inr args \<Rightarrow> receipt_result (call_entry the_contract fn (Inr args) a tr))"

section \<open>LoansFixedV2_3\<close>

definition new_LoansFixedV2_3 :: "jsval \<Rightarrow> backend \<Rightarrow> event list \<Rightarrow> (exn + adapter) \<times> event list" where
  "new_LoansFixedV2_3 cfg be tr = (Inr \<lparr>config = cfg, contractFactory = be, contract = None\<rparr>, tr)"

definition LoansFixedV2_3_contract :: getter where
  "LoansFixedV2_3_contract a tr =
     (case contract a of
        Some h \<Rightarrow> (Inr h, a, tr)
      | None \<Rightarrow>
          (case factory_create_at (contractFactory a) (config a) [''loan'', ''fixed'', ''v2_3''] tr of
             (Inl e, tr') \<Rightarrow> (Inl e, a, tr')
           | (Inr h, tr') \<Rightarrow> (Inr h, a\<lparr>contract := Some h\<rparr>, tr')))"

definition LoansFixedV2_3_acceptOffer :: "jsval \<Rightarrow> adapter \<Rightarrow> event list \<Rightarrow> jsval \<times> adapter \<times> event list" where
  "LoansFixedV2_3_acceptOffer options a tr =
     accept_with LoansFixedV2_3_contract ''acceptOffer'' call_toLocaleString options a tr"

definition LoansFixedV2_3_liquidateOverdueLoan :: "jsval \<Rightarrow> adapter \<Rightarrow> event list \<Rightarrow> jsval \<times> adapter \<times> event list" where
  "LoansFixedV2_3_liquidateOverdueLoan options a tr =
     success_result (call_entry LoansFixedV2_3_contract ''liquidateOverdueLoan''
       (path_arg options [''loan'', ''id'']) a tr)"

definition LoansFixedV2_3_payBackLoan :: "jsval \<Rightarrow> adapter \<Rightarrow> event list \<Rightarrow> jsval \<times> adapter \<times> event list" where
  "LoansFixedV2_3_payBackLoan options a tr =
     receipt_result (call_entry LoansFixedV2_3_contract ''payBackLoan''
       (path_arg options [''loan'', ''id'']) a tr)"

definition LoansFixedV2_3_cancelLoanCommitmentBeforeLoanHasBegun :: "jsval \<Rightarrow> adapter \<Rightarrow> event list \<Rightarrow> jsval \<times> adapter \<times> event list" where
  "LoansFixedV2_3_cancelLoanCommitmentBeforeLoanHasBegun options a tr =
     success_result (call_entry LoansFixedV2_3_contract ''cancelLoanCommitmentBeforeLoanHasBegun''
       (path_arg options [''offer'', ''nonce'']) a tr)"

section \<open>LoansFixedV2_1\<close>

text \<open>The constructor calls the factory itself; a throw there leaves no instance.\<close>

definition new_LoansFixedV2_1 :: "jsval \<Rightarrow> backend \<Rightarrow> event list \<Rightarrow> (exn + adapter) \<times> event list" where
  "new_LoansFixedV2_1 cfg be tr =
     (case factory_create_at be cfg [''loan'', ''fixed'', ''v2_1''] tr of
        (Inl e, tr') \<Rightarrow> (Inl e, tr')
      | (Inr h, tr') \<Rightarrow> (Inr \<lparr>config = cfg, contractFactory = be, contract = Some h\<rparr>, tr'))"

text \<open>\<open>this.#contract\<close>, read as it is; \<open>.call\<close> on an unset field is a TypeError.\<close>

definition LoansFixedV2_1_contract :: getter where
  "LoansFixedV2_1_contract a tr =
     (case contract a of Some h \<Rightarrow> (Inr h, a, tr) | None \<Rightarrow> (Inl TypeError, a, tr))"

definition LoansFixedV2_1_acceptOffer :: "jsval \<Rightarrow> adapter \<Rightarrow> event list \<Rightarrow> jsval \<times> adapter \<times> event list" where
  "LoansFixedV2_1_acceptOffer options a tr =
     accept_with LoansFixedV2_1_contract ''acceptOffer'' call_toLocaleString options a tr"

definition LoansFixedV2_1_liquidateOverdueLoan :: "jsval \<Rightarrow> adapter \<Rightarrow> event list \<Rightarrow> jsval \<times> adapter \<times> event list" where
  "LoansFixedV2_1_liquidateOverdueLoan options a tr =
     success_result (call_entry LoansFixedV2_1_contract ''liquidateOverdueLoan''
       (path_arg options [''loan'', ''id'']) a tr)"

definition LoansFixedV2_1_payBackLoan :: "jsval \<Rightarrow> adapter \<Rightarrow> event list \<Rightarrow> jsval \<times> adapter \<times> event list" where
  "LoansFixedV2_1_payBackLoan options a tr =
     receipt_result (call_entry LoansFixedV2_1_contract ''payBackLoan''
       (path_arg options [''loan'', ''id'']) a tr)"

definition LoansFixedV2_1_cancelLoanCommitmentBeforeLoanHasBegun :: "jsval \<Rightarrow> adapter \<Rightarrow> event list \<Rightarrow> jsval \<times> adapter \<times> event list" where
  "LoansFixedV2_1_cancelLoanCommitmentBeforeLoanHasBegun options a tr =
     success_result (call_entry LoansFixedV2_1_contract ''cancelLoanCommitmentBeforeLoanHasBegun''
       (path_arg options [''offer'', ''nonce'']) a tr)"

section \<open>LoansFixedCollectionV2_3\<close>

definition new_LoansFixedCollectionV2_3 :: "jsval \<Rightarrow> backend \<Rightarrow> event list \<Rightarrow> (exn + adapter) \<times> event list" where
  "new_LoansFixedCollectionV2_3 cfg be tr =
     (Inr \<lparr>config = cfg, contractFactory = be, contract = None\<rparr>, tr)"

definition LoansFixedCollectionV2_3_contract :: getter where
  "LoansFixedCollectionV2_3_contract a tr =
     (case contract a of
        Some h \<Rightarrow> (Inr h, a, tr)
      | None \<Rightarrow>
          (case factory_create_at (contractFactory a) (config a)
                  [''loan'', ''fixed'', ''collection'', ''v2_3''] tr of
             (Inl e, tr') \<Rightarrow> (Inl e, a, tr')
           | (Inr h, tr') \<Rightarrow> (Inr h, a\<lparr>contract := Some h\<rparr>, tr')))"

definition LoansFixedCollectionV2_3_acceptOffer :: "jsval \<Rightarrow> adapter \<Rightarrow> event list \<Rightarrow> jsval \<times> adapter \<times> event list" where
  "LoansFixedCollectionV2_3_acceptOffer options a tr =
     accept_with LoansFixedCollectionV2_3_contract ''acceptCollectionOffer'' call_String options a tr"

definition LoansFixedCollectionV2_3_liquidateOverdueLoan :: "jsval \<Rightarrow> adapter \<Rightarrow> event list \<Rightarrow> jsval \<times> adapter \<times> event list" where
  "LoansFixedCollectionV2_3_liquidateOverdueLoan options a tr =
     success_result (call_entry LoansFixedCollectionV2_3_contract ''liquidateOverdueLoan''
       (path_arg options [''loan'', ''id'']) a tr)"

definition LoansFixedCollectionV2_3_payBackLoan :: "jsval \<Rightarrow> adapter \<Rightarrow> event list \<Rightarrow> jsval \<times> adapter \<times> event list" where
  "LoansFixedCollectionV2_3_payBackLoan options a tr =
     receipt_result (call_entry LoansFixedCollectionV2_3_contract ''payBackLoan''
       (path_arg options [''loan'', ''id'']) a tr)"

definition LoansFixedCollectionV2_3_cancelLoanCommitmentBeforeLoanHasBegun :: "jsval \<Rightarrow> adapter \<Rightarrow> event list \<Rightarrow> jsval \<times> adapter \<times> event list" where
  "LoansFixedCollectionV2_3_cancelLoanCommitmentBeforeLoanHasBegun options a tr =
     success_result (call_entry LoansFixedCollectionV2_3_contract ''cancelLoanCommitmentBeforeLoanHasBegun''
       (path_arg options [''offer'', ''nonce'']) a tr)"

section \<open>The injected collaborators of Loans and Listings\<close>

text \<open>
  \<open>Loans\<close> and \<open>Listings\<close> receive their collaborators through the constructor. Their
  code is not part of these classes, so each is a parameter: a function on a world
  \<open>'w\<close> that stands for everything outside (the chain, the REST backend, the adapters'
  private state). A method that throws returns \<open>Inl\<close>.
\<close>

record 'w adapter_obj =
  acceptOffer :: "jsval \<Rightarrow> 'w \<Rightarrow> (exn + jsval) \<times> 'w"
  liquidateOverdueLoan :: "jsval \<Rightarrow> 'w \<Rightarrow> (exn + jsval) \<times> 'w"
  payBackLoan :: "jsval \<Rightarrow> 'w \<Rightarrow> (exn + jsval) \<times> 'w"
  cancelLoanCommitmentBeforeLoanHasBegun :: "jsval \<Rightarrow> 'w \<Rightarrow> (exn + jsval) \<times> 'w"

text \<open>\<open>this.#fixed\<close>: \<open>v1\<close>, \<open>v2\<close>, \<open>v2_1\<close>, \<open>v2_3\<close>, \<open>collection.v2\<close>, \<open>collection.v2_3\<close>.\<close>

record 'w fixed_adapters =
  v1 :: "'w adapter_obj"
  v2 :: "'w adapter_obj"
  v2_1 :: "'w adapter_obj"
  v2_3 :: "'w adapter_obj"
  collection_v2 :: "'w adapter_obj"
  collection_v2_3 :: "'w adapter_obj"

record 'w deps =
  api_get :: "jsval \<Rightarrow> 'w \<Rightarrow> (exn + jsval) \<times> 'w"
  sdk_config :: jsval
  account_getAddress :: "'w \<Rightarrow> exn + jsval"
  fixed :: "'w fixed_adapters"
  helper_addCurrencyUnit :: "jsval \<Rightarrow> exn + jsval"
  assertion_hasSigner :: "'w \<Rightarrow> exn option"
  assertion_hasAddress :: "'w \<Rightarrow> exn option"
  error_handle :: "exn \<Rightarrow> 'w \<Rightarrow> (exn + jsval) \<times> 'w"

text \<open>\<open>try { body } catch (e) { return this.#error.handle(e) }\<close>\<close>

definition try_catch ::
  "('w \<Rightarrow> (exn + jsval) \<times> 'w) \<Rightarrow> (exn \<Rightarrow> 'w \<Rightarrow> (exn + jsval) \<times> 'w) \<Rightarrow> 'w \<Rightarrow> (exn + jsval) \<times> 'w" where
  "try_catch body handler w =
     (case body w of
        (Inl e, w') \<Rightarrow> handler e w'
      | (Inr r, w') \<Rightarrow> (Inr r, w'))"

text \<open>A method call whose argument object is built first and may throw.\<close>

definition invoke ::
  "(jsval \<Rightarrow> 'w \<Rightarrow> (exn + jsval) \<times> 'w) \<Rightarrow> exn + jsval \<Rightarrow> 'w \<Rightarrow> (exn + jsval) \<times> 'w" where
  "invoke m arg w = (case arg of Inl e \<Rightarrow> (Inl e, w) | Inr x \<Rightarrow> m x w)"

text \<open>\<open>xs.map(f)\<close>: only an array has the method.\<close>

fun mapE :: "('a \<Rightarrow> exn + 'b) \<Rightarrow> 'a list \<Rightarrow> exn + 'b list" where
  "mapE f [] = Inr []"
| "mapE f (x # xs) =
     (case f x of
        Inl e \<Rightarrow> Inl e
      | Inr y \<Rightarrow> (case mapE f xs of Inl e \<Rightarrow> Inl e | Inr ys \<Rightarrow> Inr (y # ys)))"

definition array_map :: "(jsval \<Rightarrow> exn + jsval) \<Rightarrow> jsval \<Rightarrow> exn + jsval" where
  "array_map f v =
     (case v of
        JArray xs \<Rightarrow> thenE (mapE f xs) (\<lambda>ys. Inr (JArray ys))
      | _ \<Rightarrow> Inl TypeError)"

text \<open>\<open>xs.join()\<close>: only an array has the method.\<close>

definition array_join :: "jsval \<Rightarrow> exn + jsval" where
  "array_join v =
     (case v of
        JArray xs \<Rightarrow> Inr (JString (js_to_string (JArray xs)))
      | _ \<Rightarrow> Inl TypeError)"

section \<open>Loans\<close>

definition Loans_get :: "'w deps \<Rightarrow> jsval \<Rightarrow> 'w \<Rightarrow> (exn + jsval) \<times> 'w" where
  "Loans_get d options =
     try_catch (\<lambda>w.
       case assertion_hasAddress d w of
         Some e \<Rightarrow> (Inl e, w)
       | None \<Rightarrow>
           (case thenE (account_getAddress d w) (\<lambda>address.
                 thenE (get_path options [''filters'', ''counterparty'']) (\<lambda>counterparty.
                 thenE (get_path options [''filters'', ''status'']) (\<lambda>status.
                 Inr (JObject [(''uri'', JString ''v0.1/loans''),
                               (''params'', JObject [(''accountAddress'', address),
                                                     (''counterparty'', counterparty),
                                                     (''status'', status)])])))) of
              Inl e \<Rightarrow> (Inl e, w)
            | Inr req \<Rightarrow>
                (case api_get d req w of
                   (Inl e, w') \<Rightarrow> (Inl e, w')
                 | (Inr response, w') \<Rightarrow>
                     (thenE (get_prop response ''results'')
                        (array_map (helper_addCurrencyUnit d)), w'))))
       (error_handle d)"

definition not_supported :: "jsval \<Rightarrow> jsval" where
  "not_supported contractName =
     JObject [(''errors'',
       JObject [(''nftfi.contract.name'',
         JArray [JString (js_to_string contractName @ '' not supported'')])])]"

definition Loans_begin :: "'w deps \<Rightarrow> jsval \<Rightarrow> 'w \<Rightarrow> (exn + jsval) \<times> 'w" where
  "Loans_begin d options =
     try_catch (\<lambda>w.
       case assertion_hasSigner d w of
         Some e \<Rightarrow> (Inl e, w)
       | None \<Rightarrow>
           (case get_path options [''offer'', ''nftfi'', ''contract'', ''name''] of
              Inl e \<Rightarrow> (Inl e, w)
            | Inr contractName \<Rightarrow>
                if contractName = JString ''v2-1.loan.fixed'' then
                  acceptOffer (v2_1 (fixed d)) options w
                else if contractName = JString ''v2-3.loan.fixed'' then
                  acceptOffer (v2_3 (fixed d)) options w
                else if contractName = JString ''v2.loan.fixed.collection'' then
                  acceptOffer (collection_v2 (fixed d)) options w
                else if contractName = JString ''v2-3.loan.fixed.collection'' then
                  acceptOffer (collection_v2_3 (fixed d)) options w
                else (Inr (not_supported contractName), w)))
       (error_handle d)"

text \<open>\<open>{ loan: { id: options.loan.id } }\<close> and \<open>{ offer: { nonce: options.offer.nonce } }\<close>\<close>

definition loan_id_arg :: "jsval \<Rightarrow> exn + jsval" where
  "loan_id_arg options =
     thenE (get_path options [''loan'', ''id'']) (\<lambda>v. Inr (JObject [(''loan'', JObject [(''id'', v)])]))"

definition offer_nonce_arg :: "jsval \<Rightarrow> exn + jsval" where
  "offer_nonce_arg options =
     thenE (get_path options [''offer'', ''nonce'']) (\<lambda>v. Inr (JObject [(''offer'', JObject [(''nonce'', v)])]))"

definition Loans_liquidate :: "'w deps \<Rightarrow> jsval \<Rightarrow> 'w \<Rightarrow> (exn + jsval) \<times> 'w" where
  "Loans_liquidate d options =
     try_catch (\<lambda>w.
       case assertion_hasSigner d w of
         Some e \<Rightarrow> (Inl e, w)
       | None \<Rightarrow>
           (case get_path options [''nftfi'', ''contract'', ''name''] of
              Inl e \<Rightarrow> (Inl e, w)
            | Inr name \<Rightarrow>
                (case (if name = JString ''v1.loan.fixed'' then
                         invoke (liquidateOverdueLoan (v1 (fixed d))) (loan_id_arg options) w
                       else if name = JString ''v2.loan.fixed'' then
                         invoke (liquidateOverdueLoan (v2 (fixed d))) (loan_id_arg options) w
                       else if name = JString ''v2.loan.fixed.collection'' then
                         invoke (liquidateOverdueLoan (collection_v2 (fixed d))) (loan_id_arg options) w
                       else if name = JString ''v2-3.loan.fixed.collection'' then
                         invoke (liquidateOverdueLoan (collection_v2_3 (fixed d))) (loan_id_arg options) w
                       else if name = JString ''v2-1.loan.fixed'' then
                         invoke (liquidateOverdueLoan (v2_1 (fixed d))) (loan_id_arg options) w
                       else if name = JString ''v2-3.loan.fixed'' then
                         invoke (liquidateOverdueLoan (v2_3 (fixed d))) (loan_id_arg options) w
                       else (Inr (JBool False), w)) of
                   (Inl e, w') \<Rightarrow> (Inl e, w')
                 | (Inr success, w') \<Rightarrow> (Inr (JObject [(''success'', success)]), w'))))
       (error_handle d)"

definition Loans_repay :: "'w deps \<Rightarrow> jsval \<Rightarrow> 'w \<Rightarrow> (exn + jsval) \<times> 'w" where
  "Loans_repay d options =
     try_catch (\<lambda>w.
       case assertion_hasSigner d w of
         Some e \<Rightarrow> (Inl e, w)
       | None \<Rightarrow>
           (case get_path options [''nftfi'', ''contract'', ''name''] of
              Inl e \<Rightarrow> (Inl e, w)
            | Inr name \<Rightarrow>
                if name = JString ''v1.loan.fixed'' then
                  invoke (payBackLoan (v1 (fixed d))) (loan_id_arg options) w
                else if name = JString ''v2.loan.fixed'' then
                  invoke (payBackLoan (v2 (fixed d))) (loan_id_arg options) w
                else if name = JString ''v2-1.loan.fixed'' then
                  invoke (payBackLoan (v2_1 (fixed d))) (loan_id_arg options) w
                else if name = JString ''v2-3.loan.fixed'' then
                  invoke (payBackLoan (v2_3 (fixed d))) (loan_id_arg options) w
                else if name = JString ''v2.loan.fixed.collection'' then
                  invoke (payBackLoan (collection_v2 (fixed d))) (loan_id_arg options) w
                else if name = JString ''v2-3.loan.fixed.collection'' then
                  invoke (payBackLoan (collection_v2_3 (fixed d))) (loan_id_arg options) w
                else (Inr JUndefined, w)))
       (error_handle d)"

definition Loans_revokeOffer :: "'w deps \<Rightarrow> jsval \<Rightarrow> 'w \<Rightarrow> (exn + jsval) \<times> 'w" where
  "Loans_revokeOffer d options =
     try_catch (\<lambda>w.
       case assertion_hasSigner d w of
         Some e \<Rightarrow> (Inl e, w)
       | None \<Rightarrow>
           (case get_path options [''nftfi'', ''contract'', ''name''] of
              Inl e \<Rightarrow> (Inl e, w)
            | Inr name \<Rightarrow>
                (case (if name = JString ''v1.loan.fixed'' then
                         invoke (cancelLoanCommitmentBeforeLoanHasBegun (v1 (fixed d))) (offer_nonce_arg options) w
                       else if name = JString ''v2.loan.fixed'' then
                         invoke (cancelLoanCommitmentBeforeLoanHasBegun (v2 (fixed d))) (offer_nonce_arg options) w
                       else if name = JString ''v2-1.loan.fixed'' then
                         invoke (cancelLoanCommitmentBeforeLoanHasBegun (v2_1 (fixed d))) (offer_nonce_arg options) w
                       else if name = JString ''v2-3.loan.fixed'' then
                         invoke (cancelLoanCommitmentBeforeLoanHasBegun (v2_3 (fixed d))) (offer_nonce_arg options) w
                       else if name = JString ''v2.loan.fixed.collection'' then
                         invoke (cancelLoanCommitmentBeforeLoanHasBegun (collection_v2 (fixed d))) (offer_nonce_arg options) w
                       else if name = JString ''v2-3.loan.fixed.collection'' then
                         invoke (cancelLoanCommitmentBeforeLoanHasBegun (collection_v2_3 (fixed d))) (offer_nonce_arg options) w
                       else (Inr (JBool False), w)) of
                   (Inl e, w') \<Rightarrow> (Inl e, w')
                 | (Inr success, w') \<Rightarrow> (Inr (JObject [(''success'', success)]), w'))))
       (error_handle d)"

section \<open>Listings\<close>

text \<open>\<open>baseConfig.pagination\<close> of config.js.\<close>

definition baseConfig_pagination :: jsval where
  "baseConfig_pagination = JObject [(''limit'', JNumber 20), (''page'', JNumber 1)]"

text \<open>\<open>options?.pagination?.<field> || this.#config.pagination.<field>\<close>: the right operand
  is read only when the left one is falsy.\<close>

definition pagination_or_default :: "jsval \<Rightarrow> jsval \<Rightarrow> string \<Rightarrow> exn + jsval" where
  "pagination_or_default cfg options field =
     (let supplied = opt_prop (opt_prop options ''pagination'') field
      in if truthy supplied then Inr supplied else get_path cfg [''pagination'', field])"

text \<open>The argument of \<open>this.#api.get\<close>, or the exception thrown while building it.\<close>

definition Listings_request :: "jsval \<Rightarrow> jsval \<Rightarrow> exn + jsval" where
  "Listings_request cfg options =
     thenE (pagination_or_default cfg options ''limit'') (\<lambda>limit.
     thenE (pagination_or_default cfg options ''page'') (\<lambda>page.
     thenE (array_join (js_or (opt_prop (opt_prop options ''filters'') ''nftAddresses'') (JArray []))) (\<lambda>joined.
     Inr (JObject [(''uri'', JString ''v0.1/listings''),
                   (''params'', JObject [(''nftAddresses'', joined),
                                         (''page'', page),
                                         (''limit'', limit)])]))))"

definition Listings_get :: "'w deps \<Rightarrow> jsval \<Rightarrow> 'w \<Rightarrow> (exn + jsval) \<times> 'w" where
  "Listings_get d options0 =
     try_catch (\<lambda>w.
       let options = (if options0 = JUndefined then JObject [] else options0) in
       case Listings_request (sdk_config d) options of
         Inl e \<Rightarrow> (Inl e, w)
       | Inr req \<Rightarrow>
           (case api_get d req w of
              (Inl e, w') \<Rightarrow> (Inl e, w')
            | (Inr response, w') \<Rightarrow>
                (thenE (get_prop response ''results'')
                   (array_map (helper_addCurrencyUnit d)), w')))
       (error_handle d)"

section \<open>The adapters and their operations, by name\<close>

datatype adapter_kind = FixedV2_1 | FixedV2_3 | FixedCollectionV2_3

datatype operation =
  AcceptOffer | LiquidateOverdueLoan | PayBackLoan | CancelLoanCommitmentBeforeLoanHasBegun

fun construct :: "adapter_kind \<Rightarrow> jsval \<Rightarrow> backend \<Rightarrow> event list \<Rightarrow> (exn + adapter) \<times> event list" where
  "construct FixedV2_1 = new_LoansFixedV2_1"
| "construct FixedV2_3 = new_LoansFixedV2_3"
| "construct FixedCollectionV2_3 = new_LoansFixedCollectionV2_3"

fun run :: "adapter_kind \<Rightarrow> operation \<Rightarrow> jsval \<Rightarrow> adapter \<Rightarrow> event list \<Rightarrow> jsval \<times> adapter \<times> event list" where
  "run FixedV2_1 AcceptOffer = LoansFixedV2_1_acceptOffer"
| "run FixedV2_1 LiquidateOverdueLoan = LoansFixedV2_1_liquidateOverdueLoan"
| "run FixedV2_1 PayBackLoan = LoansFixedV2_1_payBackLoan"
| "run FixedV2_1 CancelLoanCommitmentBeforeLoanHasBegun = LoansFixedV2_1_cancelLoanCommitmentBeforeLoanHasBegun"
| "run FixedV2_3 AcceptOffer = LoansFixedV2_3_acceptOffer"
| "run FixedV2_3 LiquidateOverdueLoan = LoansFixedV2_3_liquidateOverdueLoan"
| "run FixedV2_3 PayBackLoan = LoansFixedV2_3_payBackLoan"
| "run FixedV2_3 CancelLoanCommitmentBeforeLoanHasBegun = LoansFixedV2_3_cancelLoanCommitmentBeforeLoanHasBegun"
| "run FixedCollectionV2_3 AcceptOffer = LoansFixedCollectionV2_3_acceptOffer"
| "run FixedCollectionV2_3 LiquidateOverdueLoan = LoansFixedCollectionV2_3_liquidateOverdueLoan"
| "run FixedCollectionV2_3 PayBackLoan = LoansFixedCollectionV2_3_payBackLoan"
| "run FixedCollectionV2_3 CancelLoanCommitmentBeforeLoanHasBegun = LoansFixedCollectionV2_3_cancelLoanCommitmentBeforeLoanHasBegun"

text \<open>The events an operation added to the trace.\<close>

definition added :: "event list \<Rightarrow> event list \<Rightarrow> event list" where
  "added tr tr' = drop (length tr) tr'"

text \<open>The outcome of the contract call an operation made, when it made one: the call is
  the last event it added, and the backend answered on the trace before it.\<close>

definition call_outcome :: "backend \<Rightarrow> event list \<Rightarrow> event list \<Rightarrow> (exn + jsval) option" where
  "call_outcome be tr tr' =
     (case rev (added tr tr') of
        ContractCall h req # _ \<Rightarrow> Some (handle_call be (butlast tr') h req)
      | _ \<Rightarrow> None)"

text \<open>The negative result of each operation, and what it reports as its status.\<close>

fun failure_shape :: "operation \<Rightarrow> jsval" where
  "failure_shape AcceptOffer = negative_result"
| "failure_shape PayBackLoan = negative_result"
| "failure_shape LiquidateOverdueLoan = JBool False"
| "failure_shape CancelLoanCommitmentBeforeLoanHasBegun = JBool False"

fun result_shape :: "operation \<Rightarrow> jsval \<Rightarrow> jsval" where
  "result_shape AcceptOffer result =
     JObject [(''receipt'', result), (''status'', JBool (status_is_1 result))]"
| "result_shape PayBackLoan result =
     JObject [(''receipt'', result), (''status'', JBool (status_is_1 result))]"
| "result_shape LiquidateOverdueLoan result = JBool (status_is_1 result)"
| "result_shape CancelLoanCommitmentBeforeLoanHasBegun result = JBool (status_is_1 result)"

fun reported_status :: "operation \<Rightarrow> jsval \<Rightarrow> jsval" where
  "reported_status AcceptOffer r = opt_prop r ''status''"
| "reported_status PayBackLoan r = opt_prop r ''status''"
| "reported_status LiquidateOverdueLoan r = r"
| "reported_status CancelLoanCommitmentBeforeLoanHasBegun r = r"

text \<open>The name each operation has on the adapter, the same in every adapter.\<close>

fun method_name :: "operation \<Rightarrow> string" where
  "method_name AcceptOffer = ''acceptOffer''"
| "method_name LiquidateOverdueLoan = ''liquidateOverdueLoan''"
| "method_name PayBackLoan = ''payBackLoan''"
| "method_name CancelLoanCommitmentBeforeLoanHasBegun = ''cancelLoanCommitmentBeforeLoanHasBegun''"

fun getter_of :: "adapter_kind \<Rightarrow> getter" where
  "getter_of FixedV2_1 = LoansFixedV2_1_contract"
| "getter_of FixedV2_3 = LoansFixedV2_3_contract"
| "getter_of FixedCollectionV2_3 = LoansFixedCollectionV2_3_contract"

text \<open>The contract entry point each operation calls.\<close>

fun entry_point :: "adapter_kind \<Rightarrow> operation \<Rightarrow> string" where
  "entry_point FixedCollectionV2_3 AcceptOffer = ''acceptCollectionOffer''"
| "entry_point FixedV2_1 AcceptOffer = ''acceptOffer''"
| "entry_point FixedV2_3 AcceptOffer = ''acceptOffer''"
| "entry_point k LiquidateOverdueLoan = ''liquidateOverdueLoan''"
| "entry_point k PayBackLoan = ''payBackLoan''"
| "entry_point k CancelLoanCommitmentBeforeLoanHasBegun = ''cancelLoanCommitmentBeforeLoanHasBegun''"

text \<open>How each adapter turns principal and repayment into strings.\<close>

fun serializer_of :: "adapter_kind \<Rightarrow> jsval \<Rightarrow> exn + jsval" where
  "serializer_of FixedV2_1 = call_toLocaleString"
| "serializer_of FixedV2_3 = call_toLocaleString"
| "serializer_of FixedCollectionV2_3 = call_String"

section \<open>Sample inputs and test doubles\<close>

text \<open>The loan contracts of \<open>mainnetConfig\<close> in config.js (addresses as registered there; the
  ABI lists play no part in the adapters' logic and are left empty).\<close>

definition sample_config :: jsval where
  "sample_config =
     JObject [(''loan'', JObject [(''fixed'', JObject
       [(''collection'', JObject
          [(''v2_3'', JObject [(''name'', JString ''v2-3.loan.fixed.collection''),
                               (''address'', JString ''0xD0C6e59B50C32530C627107F50Acc71958C4341F''),
                               (''abi'', JArray [])])]),
        (''v2_1'', JObject [(''name'', JString ''v2-1.loan.fixed''),
                            (''address'', JString ''0x8252Df1d8b29057d1Afe3062bf5a64D503152BC8''),
                            (''abi'', JArray [])]),
        (''v2_3'', JObject [(''name'', JString ''v2-3.loan.fixed''),
                            (''address'', JString ''0xd0a40eB7FD94eE97102BA8e9342243A2b2E22207''),
                            (''abi'', JArray [])])])]),
      (''pagination'', JObject [(''limit'', JNumber 20), (''page'', JNumber 1)])]"

text \<open>A backend whose factory and whose calls always answer the same.\<close>

definition mock_backend :: "exn + handle \<Rightarrow> exn + jsval \<Rightarrow> backend" where
  "mock_backend created answered =
     \<lparr>factory_create = (\<lambda>tr req. created), handle_call = (\<lambda>tr h req. answered)\<rparr>"

definition timeout_fault :: exn where
  "timeout_fault = Thrown (JString ''timeout'')"

text \<open>The offer of the documentation of \<open>Loans.begin\<close>, with the principal and the contract
  name left open; and the options of its \<open>liquidate\<close> example.\<close>

definition sample_offer :: "jsval \<Rightarrow> string \<Rightarrow> jsval" where
  "sample_offer amount name =
     JObject [(''offer'', JObject
       [(''nft'', JObject [(''id'', JString ''42''), (''address'', JString ''0x00000000'')]),
        (''lender'', JObject [(''address'', JString ''0x00000000''),
                              (''nonce'', JString ''314159265359'')]),
        (''terms'', JObject [(''loan'', JObject
           [(''principal'', amount),
            (''repayment'', JNumber 1100000000000000000),
            (''duration'', JNumber 604800),
            (''currency'', JString ''0x00000000''),
            (''expiry'', JNumber 1690548548)])]),
        (''signature'', JString ''0x000000000000000000000000000000000000000000000000000''),
        (''nftfi'', JObject [(''fee'', JObject [(''bps'', JNumber 500)]),
                             (''contract'', JObject [(''name'', JString name)])])])]"

definition sample_loan :: "string \<Rightarrow> jsval" where
  "sample_loan name =
     JObject [(''loan'', JObject [(''id'', JNumber 3)]),
              (''offer'', JObject [(''nonce'', JString ''42'')]),
              (''nftfi'', JObject [(''contract'', JObject [(''name'', JString name)])])]"

text \<open>An adapter just constructed lazily over the sample configuration, and a receipt.\<close>

definition fresh_adapter :: "backend \<Rightarrow> adapter" where
  "fresh_adapter be = \<lparr>config = sample_config, contractFactory = be, contract = None\<rparr>"

definition receipt_with_status :: "jsval \<Rightarrow> jsval" where
  "receipt_with_status st = JObject [(''transactionHash'', JString ''0xabc''), (''status'', st)]"

text \<open>Whether an event is a call of the contract factory.\<close>

fun is_create :: "event \<Rightarrow> bool" where
  "is_create (FactoryCreate req) = True"
| "is_create (ContractCall h req) = False"

text \<open>The contract-version names registered in config.js (\<open>mainnetConfig.loan.fixed\<close>).\<close>

definition registered_names :: "string list" where
  "registered_names =
     [''v1.loan.fixed'', ''v2.loan.fixed'', ''v2-1.loan.fixed'', ''v2-3.loan.fixed'',
      ''v2.loan.fixed.collection'', ''v2-3.loan.fixed.collection'']"

text \<open>Test doubles for \<open>Loans\<close> and \<open>Listings\<close>: the world is the log of what was called.
  Every adapter method, the REST client and the error handler record their call.\<close>

datatype spy_call =
    AdapterCalled string string jsval
  | ApiGet jsval
  | ErrorHandled exn

definition spy_adapter :: "string \<Rightarrow> spy_call list adapter_obj" where
  "spy_adapter nm =
     \<lparr>acceptOffer = (\<lambda>options w.
        (Inr (JObject [(''receipt'', JObject [(''status'', JNumber 1)]), (''status'', JBool True)]),
         w @ [AdapterCalled nm ''acceptOffer'' options])),
      liquidateOverdueLoan = (\<lambda>options w.
        (Inr (JBool True), w @ [AdapterCalled nm ''liquidateOverdueLoan'' options])),
      payBackLoan = (\<lambda>options w.
        (Inr (JObject [(''receipt'', JObject [(''status'', JNumber 1)]), (''status'', JBool True)]),
         w @ [AdapterCalled nm ''payBackLoan'' options])),
      cancelLoanCommitmentBeforeLoanHasBegun = (\<lambda>options w.
        (Inr (JBool True), w @ [AdapterCalled nm ''cancelLoanCommitmentBeforeLoanHasBegun'' options]))\<rparr>"

definition no_signer :: exn where
  "no_signer = Thrown (JString ''Account has no signer'')"

definition spy_deps :: "bool \<Rightarrow> spy_call list deps" where
  "spy_deps configured =
     \<lparr>api_get = (\<lambda>req w. (Inr (JObject [(''results'', JArray [])]), w @ [ApiGet req])),
      sdk_config = sample_config,
      account_getAddress = (\<lambda>w. Inr (JString ''0x0000000000000000000000000000000000000001'')),
      fixed = \<lparr>v1 = spy_adapter ''v1'', v2 = spy_adapter ''v2'', v2_1 = spy_adapter ''v2_1'',
                v2_3 = spy_adapter ''v2_3'', collection_v2 = spy_adapter ''collection.v2'',
                collection_v2_3 = spy_adapter ''collection.v2_3''\<rparr>,
      helper_addCurrencyUnit = Inr,
      assertion_hasSigner = (\<lambda>w. if configured then None else Some no_signer),
      assertion_hasAddress = (\<lambda>w. if configured then None else Some no_signer),
      error_handle = (\<lambda>e w. (Inr (JObject [(''error'', JString ''handled'')]), w @ [ErrorHandled e]))\<rparr>"

text \<open>A REST client that records the requests it receives (the world is their list), with
  adapters that do nothing.\<close>

definition idle_adapter :: "'w adapter_obj" where
  "idle_adapter =
     \<lparr>acceptOffer = (\<lambda>options w. (Inr JUndefined, w)),
      liquidateOverdueLoan = (\<lambda>options w. (Inr JUndefined, w)),
      payBackLoan = (\<lambda>options w. (Inr JUndefined, w)),
      cancelLoanCommitmentBeforeLoanHasBegun = (\<lambda>options w. (Inr JUndefined, w))\<rparr>"

definition rest_spy :: "jsval list deps" where
  "rest_spy =
     \<lparr>api_get = (\<lambda>req w. (Inr (JObject [(''results'', JArray [])]), w @ [req])),
      sdk_config = sample_config,
      account_getAddress = (\<lambda>w. Inr (JString ''0x0000000000000000000000000000000000000001'')),
      fixed = \<lparr>v1 = idle_adapter, v2 = idle_adapter, v2_1 = idle_adapter, v2_3 = idle_adapter,
                collection_v2 = idle_adapter, collection_v2_3 = idle_adapter\<rparr>,
      helper_addCurrencyUnit = Inr,
      assertion_hasSigner = (\<lambda>w. None),
      assertion_hasAddress = (\<lambda>w. None),
      error_handle = (\<lambda>e w. (Inr (JObject [(''error'', JString ''handled'')]), w))\<rparr>"

text \<open>An offer of 1000 units of an 18-decimals currency (\<open>1e21\<close> base units) to be repaid
  with 1100 (\<open>1.1e21\<close>), both given as Numbers, as the documentation of \<open>begin\<close> does.\<close>

definition large_offer :: "string \<Rightarrow> jsval" where
  "large_offer name =
     JObject [(''offer'', JObject
       [(''nft'', JObject [(''id'', JString ''42''), (''address'', JString ''0x00000000'')]),
        (''lender'', JObject [(''address'', JString ''0x00000000''),
                              (''nonce'', JString ''314159265359'')]),
        (''terms'', JObject [(''loan'', JObject
           [(''principal'', JNumber 1000000000000000000000),
            (''repayment'', JNumber 1100000000000000000000),
            (''duration'', JNumber 604800),
            (''currency'', JString ''0x00000000''),
            (''expiry'', JNumber 1690548548)])]),
        (''signature'', JString ''0x000000000000000000000000000000000000000000000000000''),
        (''nftfi'', JObject [(''fee'', JObject [(''bps'', JNumber 500)]),
                             (''contract'', JObject [(''name'', JString name)])])])]"

text \<open>Reading a string of decimal digits back as an integer (what the contract-call backend
  does with an amount).\<close>

definition digit_value :: "char \<Rightarrow> nat" where
  "digit_value c = of_char c - 48"

definition parse_digits :: "string \<Rightarrow> nat" where
  "parse_digits ds = foldl (\<lambda>acc c. 10 * acc + digit_value c) 0 ds"

section \<open>The registered ABIs\<close>

text \<open>\<open>mainnetConfig.loan.fixed.v2.abi\<close> of config.js, which \<open>v2_1.abi\<close> and \<open>v2_3.abi\<close> are set to.\<close>

definition mainnet_v2_abi :: "string list" where
  "mainnet_v2_abi =
     [''function cancelLoanCommitmentBeforeLoanHasBegun(uint256 nonce)'',
      ''function liquidateOverdueLoan(uint32 _loanId) nonpayable returns()'',
      ''function payBackLoan(uint32 _loanId)'',
      ''function acceptOffer(tuple(uint256 loanPrincipalAmount, uint256 maximumRepaymentAmount, uint256 nftCollateralId, address nftCollateralContract, uint32 loanDuration, uint16 loanAdminFeeInBasisPoints, address loanERC20Denomination, address referrer) _offer, tuple(uint256 nonce, uint256 expiry, address signer, bytes signature) _signature, tuple(address revenueSharePartner, uint16 referralFeeInBasisPoints) _borrowerSettings)'',
      ''function getWhetherNonceHasBeenUsedForUser(address _user, uint256 _nonce) view returns (bool)'',
      ''event LoanStarted(uint32 indexed loanId, address indexed borrower, address indexed lender, tuple(uint256 loanPrincipalAmount, uint256 maximumRepaymentAmount, uint256 nftCollateralId, address loanERC20Denomination, uint32 loanDuration, uint16 loanInterestRateForDurationInBasisPoints, uint16 loanAdminFeeInBasisPoints, address nftCollateralWrapper, uint64 loanStartTime, address nftCollateralContract, address borrower) loanTerms, tuple(address revenueSharePartner, uint16 revenueShareInBasisPoints, uint16 referralFeeInBasisPoints) loanExtras)'']"

text \<open>\<open>mainnetConfig.loan.fixed.collection.v2.abi\<close>\<close>

definition mainnet_collection_v2_abi :: "string list" where
  "mainnet_collection_v2_abi =
     [''function cancelLoanCommitmentBeforeLoanHasBegun(uint256 nonce)'',
      ''function liquidateOverdueLoan(uint32 _loanId) nonpayable returns()'',
      ''function payBackLoan(uint32 _loanId)'',
      ''function acceptOffer(tuple(uint256 loanPrincipalAmount, uint256 maximumRepaymentAmount, uint256 nftCollateralId, address nftCollateralContract, uint32 loanDuration, uint16 loanAdminFeeInBasisPoints, address loanERC20Denomination, address referrer) _offer, tuple(uint256 nonce, uint256 expiry, address signer, bytes signature) _signature, tuple(address revenueSharePartner, uint16 referralFeeInBasisPoints) _borrowerSettings)'',
      ''function getWhetherNonceHasBeenUsedForUser(address _user, uint256 _nonce) view returns (bool)'',
      ''event LoanStarted(uint32 indexed loanId, address indexed borrower, address indexed lender, tuple(uint256 loanPrincipalAmount, uint256 maximumRepaymentAmount, uint256 nftCollateralId, address loanERC20Denomination, uint32 loanDuration, uint16 loanInterestRateForDurationInBasisPoints, uint16 loanAdminFeeInBasisPoints, address nftCollateralWrapper, uint64 loanStartTime, address nftCollateralContract, address borrower) loanTerms, tuple(address revenueSharePartner, uint16 revenueShareInBasisPoints, uint16 referralFeeInBasisPoints) loanExtras)'']"

text \<open>\<open>mainnetConfig.loan.fixed.collection.v2_3.abi\<close>\<close>

definition mainnet_collection_v2_3_abi :: "string list" where
  "mainnet_collection_v2_3_abi =
     [''function cancelLoanCommitmentBeforeLoanHasBegun(uint256 _nonce)'',
      ''function liquidateOverdueLoan(uint32 _loanId)'',
      ''function payBackLoan(uint32 _loanId)'',
      ''function acceptCollectionOffer(tuple(uint256 loanPrincipalAmount, uint256 maximumRepaymentAmount, uint256 nftCollateralId, address nftCollateralContract, uint32 loanDuration, uint16 loanAdminFeeInBasisPoints, address loanERC20Denomination, address referrer) _offer, tuple(uint256 nonce, uint256 expiry, address signer, bytes signature) _signature, tuple(address revenueSharePartner, uint16 referralFeeInBasisPoints) _borrowerSettings)'',
      ''function acceptOffer(tuple(uint256 loanPrincipalAmount, uint256 maximumRepaymentAmount, uint256 nftCollateralId, address nftCollateralContract, uint32 loanDuration, uint16 loanAdminFeeInBasisPoints, address loanERC20Denomination, address referrer), tuple(uint256 nonce, uint256 expiry, address signer, bytes signature), tuple(address revenueSharePartner, uint16 referralFeeInBasisPoints)) returns (uint32)'',
      ''function getWhetherNonceHasBeenUsedForUser(address _user, uint256 _nonce) view returns (bool)'',
      ''event LoanStarted(uint32 indexed loanId, address indexed borrower, address indexed lender, tuple(uint256 loanPrincipalAmount, uint256 maximumRepaymentAmount, uint256 nftCollateralId, address loanERC20Denomination, uint32 loanDuration, uint16 loanInterestRateForDurationInBasisPoints, uint16 loanAdminFeeInBasisPoints, address nftCollateralWrapper, uint64 loanStartTime, address nftCollateralContract, address borrower) loanTerms, tuple(address revenueSharePartner, uint16 revenueShareInBasisPoints, uint16 referralFeeInBasisPoints) loanExtras)'']"

text \<open>The function an entry of a human-readable ABI declares: the name between
  \<open>function\<close> and the opening parenthesis; an event declares none.\<close>

definition abi_function_name :: "string \<Rightarrow> string option" where
  "abi_function_name entry =
     (if take 9 entry = ''function '' then Some (takeWhile (\<lambda>c. c \<noteq> CHR ''('') (drop 9 entry))
      else None)"

definition abi_functions :: "string list \<Rightarrow> string list" where
  "abi_functions abi = List.map_filter abi_function_name abi"

text \<open>The ABI registered for each adapter on mainnet, and where each adapter reads its
  address and ABI in the configuration.\<close>

fun registered_abi :: "adapter_kind \<Rightarrow> string list" where
  "registered_abi FixedV2_1 = mainnet_v2_abi"
| "registered_abi FixedV2_3 = mainnet_v2_abi"
| "registered_abi FixedCollectionV2_3 = mainnet_collection_v2_3_abi"

fun config_path :: "adapter_kind \<Rightarrow> string list" where
  "config_path FixedV2_1 = [''loan'', ''fixed'', ''v2_1'']"
| "config_path FixedV2_3 = [''loan'', ''fixed'', ''v2_3'']"
| "config_path FixedCollectionV2_3 = [''loan'', ''fixed'', ''collection'', ''v2_3'']"

text \<open>The three arguments the accept entry point receives for \<open>large_offer\<close>, given the two
  strings its amounts were turned into.\<close>

definition large_offer_args :: "string \<Rightarrow> string \<Rightarrow> jsval list" where
  "large_offer_args principal_string repayment_string =
     [JObject [(''loanERC20Denomination'', JString ''0x00000000''),
               (''loanPrincipalAmount'', JString principal_string),
               (''maximumRepaymentAmount'', JString repayment_string),
               (''nftCollateralContract'', JString ''0x00000000''),
               (''nftCollateralId'', JString ''42''),
               (''referrer'', JString ''0x0000000000000000000000000000000000000000''),
               (''loanDuration'', JNumber 604800),
               (''loanAdminFeeInBasisPoints'', JNumber 500)],
      JObject [(''signer'', JString ''0x00000000''),
               (''nonce'', JString ''314159265359''),
               (''expiry'', JNumber 1690548548),
               (''signature'', JString ''0x000000000000000000000000000000000000000000000000000'')],
      JObject [(''revenueSharePartner'', JString ''0x0000000000000000000000000000000000000000''),
               (''referralFeeInBasisPoints'', JNumber 0)]]"

section \<open>Properties of the adapters\<close>

lemma getter_shape:
  assumes "g = LoansFixedV2_3_contract \<or> g = LoansFixedV2_1_contract \<or> g = LoansFixedCollectionV2_3_contract"
      and "g a tr = (x, a', tr')"
  shows "contractFactory a' = contractFactory a \<and> config a' = config a \<and>
         (tr' = tr \<or> (\<exists>req. tr' = tr @ [FactoryCreate req])) \<and>
         (\<forall>h. x = Inr h \<longrightarrow> contract a' = Some h) \<and>
         (\<forall>h. contract a = Some h \<longrightarrow> x = Inr h \<and> a' = a \<and> tr' = tr) \<and>
         (\<forall>e. x = Inl e \<longrightarrow> a' = a) \<and>
         (\<forall>h. contract a = None \<longrightarrow> contract a' = Some h \<longrightarrow>
              (\<exists>req. tr' = tr @ [FactoryCreate req] \<and>
                     factory_create (contractFactory a) tr req = Inr h))"
  using assms
  by (auto simp: LoansFixedV2_3_contract_def LoansFixedV2_1_contract_def
      LoansFixedCollectionV2_3_contract_def factory_create_at_def Let_def
      split: option.splits sum.splits prod.splits)

lemma call_outcome_none [simp]:
  "call_outcome be tr tr = None" "call_outcome be tr (tr @ [FactoryCreate req]) = None"
  by (simp_all add: call_outcome_def added_def)

lemma call_outcome_some [simp]:
  "call_outcome be tr (tr @ [ContractCall h req]) = Some (handle_call be tr h req)"
  "call_outcome be tr (tr @ [FactoryCreate c, ContractCall h req]) = Some (handle_call be (tr @ [FactoryCreate c]) h req)"
   apply (simp_all add: call_outcome_def added_def butlast_append)
  done

lemma call_entry_shape:
  assumes g: "g = LoansFixedV2_3_contract \<or> g = LoansFixedV2_1_contract \<or> g = LoansFixedCollectionV2_3_contract"
      and c: "call_entry g fn args a tr = (r, a', tr')"
  shows "contractFactory a' = contractFactory a \<and> config a' = config a \<and>
     (\<forall>h. contract a = None \<longrightarrow> contract a' = Some h \<longrightarrow>
          (\<exists>req evs. tr' = tr @ FactoryCreate req # evs \<and>
                 factory_create (contractFactory a) tr req = Inr h)) \<and>
     (\<forall>h. contract a = Some h \<longrightarrow>
          a' = a \<and> (tr' = tr \<or> (\<exists>req. tr' = tr @ [ContractCall h req]))) \<and>
     ((\<exists>e. r = Inl e \<and> (tr' = tr \<or> (\<exists>req. tr' = tr @ [FactoryCreate req]))) \<or>
      (\<exists>h xs pre. args = Inr xs \<and> (pre = tr \<or> (\<exists>req. pre = tr @ [FactoryCreate req])) \<and>
          tr' = pre @ [ContractCall h (call_request fn xs)] \<and>
          r = handle_call (contractFactory a) pre h (call_request fn xs) \<and>
          contract a' = Some h \<and> (\<forall>h'. contract a = Some h' \<longrightarrow> h' = h \<and> pre = tr)))"
proof -
  obtain x a1 tr1 where g1: "g a tr = (x, a1, tr1)" by (cases "g a tr") auto
  note s = getter_shape [OF g g1]
  show ?thesis
  proof (cases x)
    case (Inl e)
    with c g1 s show ?thesis by (auto simp: call_entry_def)
  next
    case (Inr h)
    show ?thesis
    proof (cases args)
      case (Inl e)
      with c g1 s Inr show ?thesis by (auto simp: call_entry_def)
    next
      case (Inr xs)
      with c g1 s \<open>x = Inr h\<close> show ?thesis
        by (auto simp: call_entry_def contract_call_def Let_def)
    qed
  qed
qed

lemma getter_of_cases:
  "getter_of k = LoansFixedV2_3_contract \<or> getter_of k = LoansFixedV2_1_contract \<or>
   getter_of k = LoansFixedCollectionV2_3_contract"
  by (cases k) simp_all

text \<open>Every operation is one call through the adapter's contract, shaped into a result.\<close>

lemma run_unfold:
  "run k op options a tr =
     (case op of
        AcceptOffer \<Rightarrow>
          (case offer_args (serializer_of k) options of
             Inl e \<Rightarrow> (negative_result, a, tr)
           | Inr args \<Rightarrow>
               receipt_result (call_entry (getter_of k) (entry_point k AcceptOffer) (Inr args) a tr))
      | LiquidateOverdueLoan \<Rightarrow>
          success_result (call_entry (getter_of k) (entry_point k LiquidateOverdueLoan)
            (path_arg options [''loan'', ''id'']) a tr)
      | PayBackLoan \<Rightarrow>
          receipt_result (call_entry (getter_of k) (entry_point k PayBackLoan)
            (path_arg options [''loan'', ''id'']) a tr)
      | CancelLoanCommitmentBeforeLoanHasBegun \<Rightarrow>
          success_result (call_entry (getter_of k) (entry_point k CancelLoanCommitmentBeforeLoanHasBegun)
            (path_arg options [''offer'', ''nonce'']) a tr))"
  by (cases k; cases op; hypsubst_thin)
    (simp_all add: accept_with_def
      LoansFixedV2_1_acceptOffer_def LoansFixedV2_1_liquidateOverdueLoan_def
      LoansFixedV2_1_payBackLoan_def LoansFixedV2_1_cancelLoanCommitmentBeforeLoanHasBegun_def
      LoansFixedV2_3_acceptOffer_def LoansFixedV2_3_liquidateOverdueLoan_def
      LoansFixedV2_3_payBackLoan_def LoansFixedV2_3_cancelLoanCommitmentBeforeLoanHasBegun_def
      LoansFixedCollectionV2_3_acceptOffer_def LoansFixedCollectionV2_3_liquidateOverdueLoan_def
      LoansFixedCollectionV2_3_payBackLoan_def
      LoansFixedCollectionV2_3_cancelLoanCommitmentBeforeLoanHasBegun_def
      split: sum.splits)

lemma shaped_call:
  assumes c: "call_entry (getter_of k) fn args a tr = (x, a', tr')"
      and r: "r = (case x of Inl e \<Rightarrow> failure_shape op | Inr result \<Rightarrow> result_shape op result)"
  shows "contractFactory a' = contractFactory a \<and> config a' = config a \<and>
     (\<forall>h. contract a = None \<longrightarrow> contract a' = Some h \<longrightarrow>
          (\<exists>req evs. tr' = tr @ FactoryCreate req # evs \<and>
                 factory_create (contractFactory a) tr req = Inr h)) \<and>
     (\<forall>h. contract a = Some h \<longrightarrow>
          a' = a \<and> (tr' = tr \<or> (\<exists>req. tr' = tr @ [ContractCall h req]))) \<and>
     ((r = failure_shape op \<and> (tr' = tr \<or> (\<exists>req. tr' = tr @ [FactoryCreate req]))) \<or>
      (\<exists>h xs pre. (pre = tr \<or> (\<exists>req. pre = tr @ [FactoryCreate req])) \<and>
          tr' = pre @ [ContractCall h (call_request fn xs)] \<and>
          contract a' = Some h \<and> (\<forall>h'. contract a = Some h' \<longrightarrow> h' = h \<and> pre = tr) \<and>
          r = (case handle_call (contractFactory a) pre h (call_request fn xs) of
                 Inl e \<Rightarrow> failure_shape op
               | Inr result \<Rightarrow> result_shape op result)))"
  using call_entry_shape [OF getter_of_cases c] r
  by (elim conjE disjE exE) (simp, simp, blast, blast)

lemma run_shape:
  assumes "run k op options a tr = (r, a', tr')"
  shows "contractFactory a' = contractFactory a \<and> config a' = config a \<and>
     (\<forall>h. contract a = None \<longrightarrow> contract a' = Some h \<longrightarrow>
          (\<exists>req evs. tr' = tr @ FactoryCreate req # evs \<and>
                 factory_create (contractFactory a) tr req = Inr h)) \<and>
     (\<forall>h. contract a = Some h \<longrightarrow>
          a' = a \<and> (tr' = tr \<or> (\<exists>req. tr' = tr @ [ContractCall h req]))) \<and>
     ((r = failure_shape op \<and> (tr' = tr \<or> (\<exists>req. tr' = tr @ [FactoryCreate req]))) \<or>
      (\<exists>h xs pre. (pre = tr \<or> (\<exists>req. pre = tr @ [FactoryCreate req])) \<and>
          tr' = pre @ [ContractCall h (call_request (entry_point k op) xs)] \<and>
          contract a' = Some h \<and> (\<forall>h'. contract a = Some h' \<longrightarrow> h' = h \<and> pre = tr) \<and>
          r = (case handle_call (contractFactory a) pre h (call_request (entry_point k op) xs) of
                 Inl e \<Rightarrow> failure_shape op
               | Inr result \<Rightarrow> result_shape op result)))"
proof (cases "op = AcceptOffer \<and> isl (offer_args (serializer_of k) options)")
  case True
  with assms show ?thesis
    by (auto simp: run_unfold isl_def)
next
  case False
  define args where "args = (case op of
       AcceptOffer \<Rightarrow> Inr (projr (offer_args (serializer_of k) options))
     | LiquidateOverdueLoan \<Rightarrow> path_arg options [''loan'', ''id'']
     | PayBackLoan \<Rightarrow> path_arg options [''loan'', ''id'']
     | CancelLoanCommitmentBeforeLoanHasBegun \<Rightarrow> path_arg options [''offer'', ''nonce''])"
  obtain x a1 tr1 where c: "call_entry (getter_of k) (entry_point k op) args a tr = (x, a1, tr1)"
    by (metis prod_cases3)
  from assms False c
  have "a' = a1" "tr' = tr1"
    "r = (case x of Inl e \<Rightarrow> failure_shape op | Inr result \<Rightarrow> result_shape op result)"
    by (cases op; auto simp: run_unfold args_def receipt_result_def success_result_def
        split: sum.splits)+
  with shaped_call [OF c, of r op] show ?thesis by simp
qed

lemma added_simps [simp]:
  "added tr tr = []" "added tr (tr @ evs) = evs"
  by (simp_all add: added_def)

section \<open>Faults of the underlying call\<close>

text \<open>
  C5. For every adapter modelled here (v2.1, v2.3, collection v2.3) and each of its four
  operations: when the underlying contract call throws or rejects (or no call could be
  made at all, because an exception came earlier), the operation returns its
  negative result, \<open>{ receipt: null, status: false }\<close> for acceptOffer and payBackLoan and
  \<open>false\<close> for liquidateOverdueLoan and cancelLoanCommitmentBeforeLoanHasBegun. An
  operation always returns a value: its \<open>try\<close> encloses every expression that can throw.
\<close>

theorem adapter_operations_catch_faults:
  assumes "run k op options a tr = (r, a', tr')"
      and "call_outcome (contractFactory a) tr tr' = Some (Inl e) \<or>
           call_outcome (contractFactory a) tr tr' = None"
  shows "r = (if op = AcceptOffer \<or> op = PayBackLoan
              then JObject [(''receipt'', JNull), (''status'', JBool False)]
              else JBool False)"
proof -
  have f: "failure_shape op = (if op = AcceptOffer \<or> op = PayBackLoan
              then JObject [(''receipt'', JNull), (''status'', JBool False)]
              else JBool False)"
    by (cases op) (simp_all add: negative_result_def)
  from run_shape [OF assms(1)] assms(2) have "r = failure_shape op"
    by (elim conjE disjE exE) (auto split: sum.splits)
  with f show ?thesis by simp
qed

theorem adapter_operations_catch_faults_witness:
  "run FixedCollectionV2_3 LiquidateOverdueLoan (sample_loan ''v2-3.loan.fixed.collection'')
      \<lparr>config = sample_config, contractFactory = mock_backend (Inr 7) (Inl timeout_fault), contract = None\<rparr> []
    = (JBool False,
       \<lparr>config = sample_config, contractFactory = mock_backend (Inr 7) (Inl timeout_fault), contract = Some 7\<rparr>,
       [FactoryCreate (JObject [(''address'', JString ''0xD0C6e59B50C32530C627107F50Acc71958C4341F''),
                                (''abi'', JArray [])]),
        ContractCall 7 (call_request ''liquidateOverdueLoan'' [JNumber 3])])
   \<and> call_outcome (mock_backend (Inr 7) (Inl timeout_fault)) []
       [FactoryCreate (JObject [(''address'', JString ''0xD0C6e59B50C32530C627107F50Acc71958C4341F''),
                                (''abi'', JArray [])]),
        ContractCall 7 (call_request ''liquidateOverdueLoan'' [JNumber 3])] = Some (Inl timeout_fault)"
proof -
  have r: "run FixedCollectionV2_3 LiquidateOverdueLoan (sample_loan ''v2-3.loan.fixed.collection'')
      \<lparr>config = sample_config, contractFactory = mock_backend (Inr 7) (Inl timeout_fault), contract = None\<rparr> []
    = (JBool False,
       \<lparr>config = sample_config, contractFactory = mock_backend (Inr 7) (Inl timeout_fault), contract = Some 7\<rparr>,
       [FactoryCreate (JObject [(''address'', JString ''0xD0C6e59B50C32530C627107F50Acc71958C4341F''),
                                (''abi'', JArray [])]),
        ContractCall 7 (call_request ''liquidateOverdueLoan'' [JNumber 3])])"
    by (simp add: LoansFixedCollectionV2_3_liquidateOverdueLoan_def success_result_def
        call_entry_def LoansFixedCollectionV2_3_contract_def factory_create_at_def
        sample_config_def sample_loan_def get_prop_def path_arg_def thenE_def
        contract_call_def mock_backend_def Let_def)
  have c: "call_outcome (mock_backend (Inr 7) (Inl timeout_fault)) []
       [FactoryCreate (JObject [(''address'', JString ''0xD0C6e59B50C32530C627107F50Acc71958C4341F''),
                                (''abi'', JArray [])]),
        ContractCall 7 (call_request ''liquidateOverdueLoan'' [JNumber 3])] = Some (Inl timeout_fault)"
    by (simp add: call_outcome_def added_def mock_backend_def)
  from adapter_operations_catch_faults [OF r, of timeout_fault] r c show ?thesis by simp
qed

section \<open>What the status reports\<close>

lemma reported_status_failure: "reported_status op (failure_shape op) = JBool False"
  by (cases op) (simp_all add: negative_result_def opt_prop_def)

lemma reported_status_result: "reported_status op (result_shape op result) = JBool (status_is_1 result)"
  by (cases op) (simp_all add: opt_prop_def)

lemmas sample_eval =
  LoansFixedV2_1_acceptOffer_def LoansFixedV2_1_liquidateOverdueLoan_def
  LoansFixedV2_1_payBackLoan_def LoansFixedV2_1_cancelLoanCommitmentBeforeLoanHasBegun_def
  LoansFixedV2_3_acceptOffer_def LoansFixedV2_3_liquidateOverdueLoan_def
  LoansFixedV2_3_payBackLoan_def LoansFixedV2_3_cancelLoanCommitmentBeforeLoanHasBegun_def
  LoansFixedCollectionV2_3_acceptOffer_def LoansFixedCollectionV2_3_liquidateOverdueLoan_def
  LoansFixedCollectionV2_3_payBackLoan_def
  LoansFixedCollectionV2_3_cancelLoanCommitmentBeforeLoanHasBegun_def
  new_LoansFixedV2_1_def new_LoansFixedV2_3_def new_LoansFixedCollectionV2_3_def
  accept_with_def success_result_def receipt_result_def negative_result_def
  call_entry_def LoansFixedCollectionV2_3_contract_def LoansFixedV2_3_contract_def
  LoansFixedV2_1_contract_def factory_create_at_def
  sample_config_def sample_loan_def sample_offer_def fresh_adapter_def receipt_with_status_def
  get_prop_def opt_prop_def path_arg_def thenE_def status_is_1_def
  contract_call_def mock_backend_def call_outcome_def added_def Let_def

text \<open>
  C6. For every adapter modelled here and each of its four operations, the reported status
  (the \<open>status\<close> field of the result of acceptOffer and payBackLoan, the boolean returned by
  liquidateOverdueLoan and cancelLoanCommitmentBeforeLoanHasBegun) is \<open>true\<close> if and only if
  the underlying contract call resolved with a receipt whose \<open>status\<close> is the number 1.
  The status is always \<open>true\<close> or \<open>false\<close>; the result is either the negative result or
  carries the receipt of the call; and a call that throws gives the negative result.
\<close>

theorem status_true_iff_receipt_status_1:
  assumes "run k op options a tr = (r, a', tr')"
  shows "((reported_status op r = JBool True) =
           (\<exists>result. call_outcome (contractFactory a) tr tr' = Some (Inr result) \<and>
                     opt_prop result ''status'' = JNumber 1)) \<and>
         (reported_status op r = JBool True \<or> reported_status op r = JBool False) \<and>
         (r = failure_shape op \<or>
           (\<exists>result. call_outcome (contractFactory a) tr tr' = Some (Inr result) \<and>
                     r = result_shape op result)) \<and>
         (\<forall>e. call_outcome (contractFactory a) tr tr' = Some (Inl e) \<longrightarrow> r = failure_shape op)"
proof -
  from run_shape [OF assms]
  consider (quiet) "r = failure_shape op" "call_outcome (contractFactory a) tr tr' = None"
    | (called) x where "call_outcome (contractFactory a) tr tr' = Some x"
        "r = (case x of Inl e \<Rightarrow> failure_shape op | Inr result \<Rightarrow> result_shape op result)"
    by (elim conjE disjE exE) auto
  then show ?thesis
  proof cases
    case quiet
    then show ?thesis by (simp add: reported_status_failure)
  next
    case (called x)
    then show ?thesis
      by (cases x) (simp_all add: reported_status_failure reported_status_result status_is_1_def)
  qed
qed

theorem status_true_iff_receipt_status_1_witness:
  "reported_status PayBackLoan (fst (run FixedV2_3 PayBackLoan (sample_loan ''v2-3.loan.fixed'')
      (fresh_adapter (mock_backend (Inr 7) (Inr (receipt_with_status (JNumber 1))))) [])) = JBool True \<and>
   reported_status PayBackLoan (fst (run FixedV2_3 PayBackLoan (sample_loan ''v2-3.loan.fixed'')
      (fresh_adapter (mock_backend (Inr 7) (Inr (receipt_with_status (JNumber 0))))) [])) = JBool False \<and>
   reported_status LiquidateOverdueLoan (fst (run FixedV2_1 LiquidateOverdueLoan (sample_loan ''v2-1.loan.fixed'')
      \<lparr>config = sample_config, contractFactory = mock_backend (Inr 7) (Inr (receipt_with_status JUndefined)),
        contract = Some 7\<rparr> [])) = JBool False"
proof -
  define req where "req = FactoryCreate (JObject
    [(''address'', JString ''0xd0a40eB7FD94eE97102BA8e9342243A2b2E22207''), (''abi'', JArray [])])"
  define b1 where "b1 = mock_backend (Inr 7) (Inr (receipt_with_status (JNumber 1)))"
  define b0 where "b0 = mock_backend (Inr 7) (Inr (receipt_with_status (JNumber 0)))"
  define bu where "bu = mock_backend (Inr 7) (Inr (receipt_with_status JUndefined))"
  have r1: "run FixedV2_3 PayBackLoan (sample_loan ''v2-3.loan.fixed'') (fresh_adapter b1) [] =
      (JObject [(''receipt'', receipt_with_status (JNumber 1)), (''status'', JBool True)],
       (fresh_adapter b1)\<lparr>contract := Some 7\<rparr>,
       [req, ContractCall 7 (call_request ''payBackLoan'' [JNumber 3])])"
    by (simp add: sample_eval b1_def req_def)
  have r0: "run FixedV2_3 PayBackLoan (sample_loan ''v2-3.loan.fixed'') (fresh_adapter b0) [] =
      (JObject [(''receipt'', receipt_with_status (JNumber 0)), (''status'', JBool False)],
       (fresh_adapter b0)\<lparr>contract := Some 7\<rparr>,
       [req, ContractCall 7 (call_request ''payBackLoan'' [JNumber 3])])"
    by (simp add: sample_eval b0_def req_def)
  have ru: "run FixedV2_1 LiquidateOverdueLoan (sample_loan ''v2-1.loan.fixed'')
      \<lparr>config = sample_config, contractFactory = bu, contract = Some 7\<rparr> [] =
      (JBool False, \<lparr>config = sample_config, contractFactory = bu, contract = Some 7\<rparr>,
       [ContractCall 7 (call_request ''liquidateOverdueLoan'' [JNumber 3])])"
    by (simp add: sample_eval bu_def)
  have c1: "call_outcome (contractFactory (fresh_adapter b1)) []
      [req, ContractCall 7 (call_request ''payBackLoan'' [JNumber 3])] = Some (Inr (receipt_with_status (JNumber 1)))"
    by (simp add: sample_eval b1_def req_def)
  have c0: "call_outcome (contractFactory (fresh_adapter b0)) []
      [req, ContractCall 7 (call_request ''payBackLoan'' [JNumber 3])] = Some (Inr (receipt_with_status (JNumber 0)))"
    by (simp add: sample_eval b0_def req_def)
  have cu: "call_outcome bu [] [ContractCall 7 (call_request ''liquidateOverdueLoan'' [JNumber 3])]
      = Some (Inr (receipt_with_status JUndefined))"
    by (simp add: sample_eval bu_def)
  have s1: "opt_prop (receipt_with_status (JNumber 1)) ''status'' = JNumber 1"
    and s0: "opt_prop (receipt_with_status (JNumber 0)) ''status'' \<noteq> JNumber 1"
    and su: "opt_prop (receipt_with_status JUndefined) ''status'' \<noteq> JNumber 1"
    by (simp_all add: receipt_with_status_def opt_prop_def)
  from status_true_iff_receipt_status_1 [OF r1] c1 s1
  have "reported_status PayBackLoan (fst (run FixedV2_3 PayBackLoan (sample_loan ''v2-3.loan.fixed'')
      (fresh_adapter b1) [])) = JBool True"
    by (auto simp: r1 [unfolded run.simps])
  moreover from status_true_iff_receipt_status_1 [OF r0] c0 s0
  have "reported_status PayBackLoan (fst (run FixedV2_3 PayBackLoan (sample_loan ''v2-3.loan.fixed'')
      (fresh_adapter b0) [])) = JBool False"
    by (auto simp: r0 [unfolded run.simps])
  moreover from status_true_iff_receipt_status_1 [OF ru] cu su
  have "reported_status LiquidateOverdueLoan (fst (run FixedV2_1 LiquidateOverdueLoan (sample_loan ''v2-1.loan.fixed'')
      \<lparr>config = sample_config, contractFactory = bu, contract = Some 7\<rparr> [])) = JBool False"
    by (auto simp: ru [unfolded run.simps])
  ultimately show ?thesis by (simp add: b1_def b0_def bu_def)
qed

lemma entry_point_eq:
  "entry_point k op =
     (if k = FixedCollectionV2_3 \<and> op = AcceptOffer then ''acceptCollectionOffer'' else method_name op)"
  by (cases k; cases op) simp_all

section \<open>The life of the contract handle\<close>

text \<open>
  C1 as stated fails for the v2.1 adapter, whose constructor calls the contract factory:
  over the sample configuration it leaves a factory call in the trace, and it fails when
  the factory does.
\<close>

theorem v2_1_constructor_calls_factory:
  "snd (construct FixedV2_1 sample_config (mock_backend (Inr 7) (Inr JNull)) []) =
     [FactoryCreate (JObject [(''address'', JString ''0x8252Df1d8b29057d1Afe3062bf5a64D503152BC8''),
                              (''abi'', JArray [])])] \<and>
   fst (construct FixedV2_1 sample_config (mock_backend (Inl timeout_fault) (Inr JNull)) []) =
     Inl timeout_fault"
  by (simp add: sample_eval)

text \<open>
  C1, amended. The v2.3 and collection v2.3 adapters are constructed without any call of
  the contract factory, and their construction cannot fail. The v2.1 adapter calls the
  factory once in its constructor and keeps the handle it returns. For all three, an
  operation calls the factory at most once; an adapter that holds a handle keeps it, makes
  no further factory call, and calls the contract through that handle only; when an
  operation of a lazy adapter leaves a handle behind, it is the one the factory returned to
  that operation's own factory call; and every contract call goes through the handle the
  adapter holds afterwards.
\<close>

theorem contract_handle_lifecycle:
  "construct FixedV2_3 cfg be tr0 = (Inr \<lparr>config = cfg, contractFactory = be, contract = None\<rparr>, tr0) \<and>
   construct FixedCollectionV2_3 cfg be tr0 = (Inr \<lparr>config = cfg, contractFactory = be, contract = None\<rparr>, tr0) \<and>
   (\<forall>a0. fst (construct FixedV2_1 cfg be tr0) = Inr a0 \<longrightarrow>
      (\<exists>req h. snd (construct FixedV2_1 cfg be tr0) = tr0 @ [FactoryCreate req] \<and>
               factory_create be tr0 req = Inr h \<and>
               a0 = \<lparr>config = cfg, contractFactory = be, contract = Some h\<rparr>)) \<and>
   (\<forall>r a' tr'. run k op options a tr = (r, a', tr') \<longrightarrow>
      length (filter is_create (added tr tr')) \<le> 1 \<and>
      (\<forall>h. contract a = Some h \<longrightarrow>
         contract a' = Some h \<and> filter is_create (added tr tr') = [] \<and>
         (\<forall>h' req. ContractCall h' req \<in> set (added tr tr') \<longrightarrow> h' = h)) \<and>
      (\<forall>h. contract a = None \<longrightarrow> contract a' = Some h \<longrightarrow>
         (\<exists>req evs. tr' = tr @ FactoryCreate req # evs \<and>
                    factory_create (contractFactory a) tr req = Inr h)) \<and>
      (\<forall>h' req. ContractCall h' req \<in> set (added tr tr') \<longrightarrow> contract a' = Some h'))"
proof -
  have c1: "construct FixedV2_3 cfg be tr0 = (Inr \<lparr>config = cfg, contractFactory = be, contract = None\<rparr>, tr0)"
    by (simp add: new_LoansFixedV2_3_def)
  have c2: "construct FixedCollectionV2_3 cfg be tr0 = (Inr \<lparr>config = cfg, contractFactory = be, contract = None\<rparr>, tr0)"
    by (simp add: new_LoansFixedCollectionV2_3_def)
  have c3: "\<exists>req h. snd (construct FixedV2_1 cfg be tr0) = tr0 @ [FactoryCreate req] \<and>
               factory_create be tr0 req = Inr h \<and>
               a0 = \<lparr>config = cfg, contractFactory = be, contract = Some h\<rparr>"
    if "fst (construct FixedV2_1 cfg be tr0) = Inr a0" for a0
    using that
    by (auto simp: new_LoansFixedV2_1_def factory_create_at_def Let_def split: sum.splits)
  have c4: "length (filter is_create (added tr tr')) \<le> 1 \<and>
      (\<forall>h. contract a = Some h \<longrightarrow>
         contract a' = Some h \<and> filter is_create (added tr tr') = [] \<and>
         (\<forall>h' req. ContractCall h' req \<in> set (added tr tr') \<longrightarrow> h' = h)) \<and>
      (\<forall>h. contract a = None \<longrightarrow> contract a' = Some h \<longrightarrow>
         (\<exists>req evs. tr' = tr @ FactoryCreate req # evs \<and>
                    factory_create (contractFactory a) tr req = Inr h)) \<and>
      (\<forall>h' req. ContractCall h' req \<in> set (added tr tr') \<longrightarrow> contract a' = Some h')"
    if run: "run k op options a tr = (r, a', tr')" for r a' tr'
  proof -
    note s = run_shape [OF run]
    from s have len: "length (filter is_create (added tr tr')) \<le> 1"
      by (elim conjE disjE exE) auto
    from s have held: "contract a' = Some h \<and> filter is_create (added tr tr') = [] \<and>
         (\<forall>h' req. ContractCall h' req \<in> set (added tr tr') \<longrightarrow> h' = h)"
      if "contract a = Some h" for h
      using that by (elim conjE disjE exE) auto
    from s have made: "\<exists>req evs. tr' = tr @ FactoryCreate req # evs \<and>
                    factory_create (contractFactory a) tr req = Inr h"
      if "contract a = None" "contract a' = Some h" for h
      using that by blast
    from s have through: "contract a' = Some h'"
      if "ContractCall h' req \<in> set (added tr tr')" for h' req
      using that by (elim conjE disjE exE) auto
    from len held made through show ?thesis by blast
  qed
  from c1 c2 c3 c4 show ?thesis by blast
qed

theorem contract_handle_lifecycle_witness:
  "(\<exists>a0. fst (construct FixedV2_1 sample_config (mock_backend (Inr 7) (Inr JNull)) []) = Inr a0 \<and>
         contract a0 = Some 7) \<and>
   (\<exists>r a' tr'. run FixedV2_3 LiquidateOverdueLoan (sample_loan ''v2-3.loan.fixed'')
        (fresh_adapter (mock_backend (Inr 7) (Inr (receipt_with_status (JNumber 1))))) [] = (r, a', tr') \<and>
      contract (fresh_adapter (mock_backend (Inr 7) (Inr (receipt_with_status (JNumber 1))))) = None \<and>
      contract a' = Some 7 \<and> length (filter is_create (added [] tr')) = 1 \<and>
      (\<exists>r2 a2 tr2. run FixedV2_3 PayBackLoan (sample_loan ''v2-3.loan.fixed'') a' tr' = (r2, a2, tr2) \<and>
         contract a2 = Some 7 \<and> filter is_create (added tr' tr2) = [] \<and>
         ContractCall 7 (call_request ''payBackLoan'' [JNumber 3]) \<in> set (added tr' tr2)))"
proof -
  define be where "be = mock_backend (Inr 7) (Inr (receipt_with_status (JNumber 1)))"
  define req where "req = FactoryCreate (JObject
    [(''address'', JString ''0xd0a40eB7FD94eE97102BA8e9342243A2b2E22207''), (''abi'', JArray [])])"
  have k: "fst (construct FixedV2_1 sample_config (mock_backend (Inr 7) (Inr JNull)) []) =
      Inr \<lparr>config = sample_config, contractFactory = mock_backend (Inr 7) (Inr JNull), contract = Some 7\<rparr>"
    by (simp add: sample_eval)
  have r1: "run FixedV2_3 LiquidateOverdueLoan (sample_loan ''v2-3.loan.fixed'') (fresh_adapter be) [] =
      (JBool True, (fresh_adapter be)\<lparr>contract := Some 7\<rparr>,
       [req, ContractCall 7 (call_request ''liquidateOverdueLoan'' [JNumber 3])])"
    by (simp add: sample_eval be_def req_def)
  have r2: "run FixedV2_3 PayBackLoan (sample_loan ''v2-3.loan.fixed'') ((fresh_adapter be)\<lparr>contract := Some 7\<rparr>)
       [req, ContractCall 7 (call_request ''liquidateOverdueLoan'' [JNumber 3])] =
      (JObject [(''receipt'', receipt_with_status (JNumber 1)), (''status'', JBool True)],
       (fresh_adapter be)\<lparr>contract := Some 7\<rparr>,
       [req, ContractCall 7 (call_request ''liquidateOverdueLoan'' [JNumber 3]),
        ContractCall 7 (call_request ''payBackLoan'' [JNumber 3])])"
    by (simp add: sample_eval be_def req_def)
  have n: "contract (fresh_adapter be) = None" "contract ((fresh_adapter be)\<lparr>contract := Some 7\<rparr>) = Some 7"
    by (simp_all add: fresh_adapter_def)
  note t = contract_handle_lifecycle [where cfg = sample_config and be = "mock_backend (Inr 7) (Inr JNull)"
      and ?tr0.0 = "[]" and k = FixedV2_3 and op = PayBackLoan and options = "sample_loan ''v2-3.loan.fixed''"
      and a = "(fresh_adapter be)\<lparr>contract := Some 7\<rparr>"
      and tr = "[req, ContractCall 7 (call_request ''liquidateOverdueLoan'' [JNumber 3])]"]
  from t k have a: "\<exists>a0. fst (construct FixedV2_1 sample_config (mock_backend (Inr 7) (Inr JNull)) []) = Inr a0 \<and>
         contract a0 = Some 7"
    by simp
  from t r2 n have b: "filter is_create (added [req, ContractCall 7 (call_request ''liquidateOverdueLoan'' [JNumber 3])]
       [req, ContractCall 7 (call_request ''liquidateOverdueLoan'' [JNumber 3]),
        ContractCall 7 (call_request ''payBackLoan'' [JNumber 3])]) = []"
    by blast
  have c: "length (filter is_create (added [] [req, ContractCall 7 (call_request ''liquidateOverdueLoan'' [JNumber 3])])) = 1"
    "ContractCall 7 (call_request ''payBackLoan'' [JNumber 3]) \<in> set (added [req, ContractCall 7 (call_request ''liquidateOverdueLoan'' [JNumber 3])]
       [req, ContractCall 7 (call_request ''liquidateOverdueLoan'' [JNumber 3]),
        ContractCall 7 (call_request ''payBackLoan'' [JNumber 3])])"
    by (simp_all add: added_def req_def)
  show ?thesis
    unfolding be_def [symmetric]
    apply (rule conjI)
     apply (rule a)
    apply (rule exI, rule exI, rule exI, rule conjI, rule r1)
    apply (intro conjI)
       apply (rule n(1))
      apply (rule n(2))
     apply (rule c(1))
    apply (rule exI, rule exI, rule exI, rule conjI, rule r2)
    apply (intro conjI)
      apply (rule n(2))
     apply (rule b)
    apply (rule c(2))
    done
qed

section \<open>The router: dispatch on the contract name\<close>

lemmas spy_eval =
  spy_deps_def spy_adapter_def sample_offer_def sample_loan_def sample_config_def no_signer_def
  get_prop_def opt_prop_def thenE_def try_catch_def invoke_def loan_id_arg_def
  offer_nonce_arg_def not_supported_def

text \<open>
  C3 as stated fails for two of the six registered names: \<open>begin\<close> has no case for
  \<open>v1.loan.fixed\<close> (nor for \<open>v2.loan.fixed\<close>). With every adapter recording its calls, a
  well-formed offer naming \<open>v1.loan.fixed\<close> reaches no adapter and is answered with the
  validation error.
\<close>

theorem begin_v1_reaches_no_adapter:
  "Loans_begin (spy_deps True) (sample_offer (JNumber 1000000000000000000) ''v1.loan.fixed'') [] =
     (Inr (JObject [(''errors'',
        JObject [(''nftfi.contract.name'', JArray [JString ''v1.loan.fixed not supported''])])]), [])"
  by (simp add: Loans_begin_def spy_eval)

text \<open>
  C3, amended. With the signer check passed and a well-formed offer naming the version:
  for each of \<open>v2-1.loan.fixed\<close>, \<open>v2-3.loan.fixed\<close>, \<open>v2.loan.fixed.collection\<close> and
  \<open>v2-3.loan.fixed.collection\<close>, \<open>begin\<close> is exactly one call of acceptOffer of the adapter
  registered under that name, with the caller's options (followed by the error handler if
  that call throws), whatever the other adapters are; for \<open>v1.loan.fixed\<close> and
  \<open>v2.loan.fixed\<close>, \<open>begin\<close> calls no adapter and returns the validation error.
\<close>

theorem begin_dispatches_by_name:
  assumes "assertion_hasSigner d w = None"
      and "get_path options [''offer'', ''nftfi'', ''contract'', ''name''] = Inr (JString name)"
  shows "(name = ''v2-1.loan.fixed'' \<longrightarrow>
            Loans_begin d options w = try_catch (acceptOffer (v2_1 (fixed d)) options) (error_handle d) w) \<and>
         (name = ''v2-3.loan.fixed'' \<longrightarrow>
            Loans_begin d options w = try_catch (acceptOffer (v2_3 (fixed d)) options) (error_handle d) w) \<and>
         (name = ''v2.loan.fixed.collection'' \<longrightarrow>
            Loans_begin d options w = try_catch (acceptOffer (collection_v2 (fixed d)) options) (error_handle d) w) \<and>
         (name = ''v2-3.loan.fixed.collection'' \<longrightarrow>
            Loans_begin d options w = try_catch (acceptOffer (collection_v2_3 (fixed d)) options) (error_handle d) w) \<and>
         (name = ''v1.loan.fixed'' \<or> name = ''v2.loan.fixed'' \<longrightarrow>
            Loans_begin d options w =
              (Inr (JObject [(''errors'',
                 JObject [(''nftfi.contract.name'', JArray [JString (name @ '' not supported'')])])]), w))"
  using assms
  by (auto simp: Loans_begin_def try_catch_def not_supported_def)

theorem begin_dispatches_by_name_witness:
  "Loans_begin (spy_deps True)
      (sample_offer (JNumber 1000000000000000000) ''v2-3.loan.fixed.collection'') [] =
     (Inr (JObject [(''receipt'', JObject [(''status'', JNumber 1)]), (''status'', JBool True)]),
      [AdapterCalled ''collection.v2_3'' ''acceptOffer''
         (sample_offer (JNumber 1000000000000000000) ''v2-3.loan.fixed.collection'')])"
proof -
  have s: "assertion_hasSigner (spy_deps True) [] = None"
    by (simp add: spy_deps_def)
  have n: "get_path (sample_offer (JNumber 1000000000000000000) ''v2-3.loan.fixed.collection'')
      [''offer'', ''nftfi'', ''contract'', ''name''] = Inr (JString ''v2-3.loan.fixed.collection'')"
    by (simp add: sample_offer_def get_prop_def)
  from begin_dispatches_by_name [OF s n] show ?thesis
    by (simp add: spy_deps_def spy_adapter_def try_catch_def)
qed

text \<open>
  C4. With the signer check passed, an options value whose \<open>offer.nftfi.contract.name\<close> is
  not one of the registered contract-version names makes \<open>begin\<close> return
  \<open>{ errors: { 'nftfi.contract.name': ['<name> not supported'] } }\<close>, where \<open><name>\<close> is
  the supplied value as a string (the supplied string itself when it is one); nothing is
  thrown and the world is left as it was: no adapter, hence no contract, is called.
\<close>

theorem begin_rejects_unregistered_name:
  assumes "assertion_hasSigner d w = None"
      and "get_path options [''offer'', ''nftfi'', ''contract'', ''name''] = Inr v"
      and "\<forall>n \<in> set registered_names. v \<noteq> JString n"
  shows "Loans_begin d options w =
           (Inr (JObject [(''errors'',
              JObject [(''nftfi.contract.name'',
                JArray [JString (js_to_string v @ '' not supported'')])])]), w) \<and>
         (\<forall>name. v = JString name \<longrightarrow> js_to_string v = name)"
  using assms
  by (auto simp: Loans_begin_def try_catch_def not_supported_def registered_names_def)

theorem begin_rejects_unregistered_name_witness:
  "Loans_begin (spy_deps True) (sample_offer (JNumber 1000000000000000000) ''v3.loan.fixed'') [] =
     (Inr (JObject [(''errors'',
        JObject [(''nftfi.contract.name'', JArray [JString ''v3.loan.fixed not supported''])])]), [])"
proof -
  have s: "assertion_hasSigner (spy_deps True) [] = None"
    by (simp add: spy_deps_def)
  have n: "get_path (sample_offer (JNumber 1000000000000000000) ''v3.loan.fixed'')
      [''offer'', ''nftfi'', ''contract'', ''name''] = Inr (JString ''v3.loan.fixed'')"
    by (simp add: sample_offer_def get_prop_def)
  have u: "\<forall>n \<in> set registered_names. JString ''v3.loan.fixed'' \<noteq> JString n"
    by (simp add: registered_names_def)
  from begin_rejects_unregistered_name [OF s n u] show ?thesis by simp
qed

text \<open>
  C7. With the signer check passed, an options value whose \<open>nftfi.contract.name\<close> is not one
  of the registered contract-version names falls through the switch of \<open>liquidate\<close>,
  \<open>repay\<close> and \<open>revokeOffer\<close>: \<open>liquidate\<close> and \<open>revokeOffer\<close> return \<open>{ success: false }\<close>,
  \<open>repay\<close> returns its never-assigned response, \<open>undefined\<close>; nothing is thrown, no
  validation error is built, and the world is left as it was: no adapter is called.
\<close>

theorem unregistered_name_falls_through:
  assumes "assertion_hasSigner d w = None"
      and "get_path options [''nftfi'', ''contract'', ''name''] = Inr v"
      and "\<forall>n \<in> set registered_names. v \<noteq> JString n"
  shows "Loans_liquidate d options w = (Inr (JObject [(''success'', JBool False)]), w) \<and>
         Loans_revokeOffer d options w = (Inr (JObject [(''success'', JBool False)]), w) \<and>
         Loans_repay d options w = (Inr JUndefined, w)"
  using assms
  by (auto simp: Loans_liquidate_def Loans_revokeOffer_def Loans_repay_def try_catch_def
      registered_names_def)

theorem unregistered_name_falls_through_witness:
  "Loans_liquidate (spy_deps True) (sample_loan ''v3.loan.fixed'') [] =
     (Inr (JObject [(''success'', JBool False)]), []) \<and>
   Loans_revokeOffer (spy_deps True) (sample_loan ''v3.loan.fixed'') [] =
     (Inr (JObject [(''success'', JBool False)]), []) \<and>
   Loans_repay (spy_deps True) (sample_loan ''v3.loan.fixed'') [] = (Inr JUndefined, [])"
proof -
  have s: "assertion_hasSigner (spy_deps True) [] = None"
    by (simp add: spy_deps_def)
  have n: "get_path (sample_loan ''v3.loan.fixed'') [''nftfi'', ''contract'', ''name''] =
      Inr (JString ''v3.loan.fixed'')"
    by (simp add: sample_loan_def get_prop_def)
  have u: "\<forall>n \<in> set registered_names. JString ''v3.loan.fixed'' \<noteq> JString n"
    by (simp add: registered_names_def)
  from unregistered_name_falls_through [OF s n u] show ?thesis by simp
qed

section \<open>The router: the precondition check\<close>

text \<open>
  C9. When the precondition check throws (\<open>hasAddress\<close> in \<open>get\<close>, \<open>hasSigner\<close> in \<open>begin\<close>,
  \<open>liquidate\<close>, \<open>repay\<close> and \<open>revokeOffer\<close>), the operation is the error handler applied to
  that error and nothing else: the caller receives the handler's result, and neither an
  adapter nor the REST client is called.
\<close>

theorem failed_precondition_goes_to_error_handler:
  "(assertion_hasAddress d w = Some e \<longrightarrow> Loans_get d options w = error_handle d e w) \<and>
   (assertion_hasSigner d w = Some e \<longrightarrow>
      Loans_begin d options w = error_handle d e w \<and>
      Loans_liquidate d options w = error_handle d e w \<and>
      Loans_repay d options w = error_handle d e w \<and>
      Loans_revokeOffer d options w = error_handle d e w)"
  by (simp add: Loans_get_def Loans_begin_def Loans_liquidate_def Loans_repay_def
      Loans_revokeOffer_def try_catch_def)

theorem failed_precondition_goes_to_error_handler_witness:
  "Loans_get (spy_deps False) (JObject [(''filters'', JObject [(''counterparty'', JString ''lender''),
        (''status'', JString ''escrow'')])]) [] =
     (Inr (JObject [(''error'', JString ''handled'')]), [ErrorHandled no_signer]) \<and>
   Loans_begin (spy_deps False) (sample_offer (JNumber 1000000000000000000) ''v2-3.loan.fixed'') [] =
     (Inr (JObject [(''error'', JString ''handled'')]), [ErrorHandled no_signer]) \<and>
   Loans_liquidate (spy_deps False) (sample_loan ''v2-3.loan.fixed'') [] =
     (Inr (JObject [(''error'', JString ''handled'')]), [ErrorHandled no_signer]) \<and>
   Loans_repay (spy_deps False) (sample_loan ''v2-3.loan.fixed'') [] =
     (Inr (JObject [(''error'', JString ''handled'')]), [ErrorHandled no_signer]) \<and>
   Loans_revokeOffer (spy_deps False) (sample_loan ''v2-3.loan.fixed'') [] =
     (Inr (JObject [(''error'', JString ''handled'')]), [ErrorHandled no_signer])"
proof -
  have s: "assertion_hasSigner (spy_deps False) [] = Some no_signer"
    "assertion_hasAddress (spy_deps False) [] = Some no_signer"
    "error_handle (spy_deps False) no_signer [] =
       (Inr (JObject [(''error'', JString ''handled'')]), [ErrorHandled no_signer])"
    by (simp_all add: spy_deps_def)
  note t = failed_precondition_goes_to_error_handler [of "spy_deps False" "[]" no_signer]
  from t [of "JObject [(''filters'', JObject [(''counterparty'', JString ''lender''),
        (''status'', JString ''escrow'')])]"]
    t [of "sample_offer (JNumber 1000000000000000000) ''v2-3.loan.fixed''"]
    t [of "sample_loan ''v2-3.loan.fixed''"] s
  show ?thesis by simp
qed

section \<open>Listings: pagination defaults\<close>

lemma pagination_default:
  assumes "get_prop cfg ''pagination'' = Inr baseConfig_pagination"
  shows "pagination_or_default cfg options ''limit'' =
           Inr (if truthy (opt_prop (opt_prop options ''pagination'') ''limit'')
                then opt_prop (opt_prop options ''pagination'') ''limit'' else JNumber 20)"
    and "pagination_or_default cfg options ''page'' =
           Inr (if truthy (opt_prop (opt_prop options ''pagination'') ''page'')
                then opt_prop (opt_prop options ''pagination'') ''page'' else JNumber 1)"
  using assms
  by (simp_all add: pagination_or_default_def Let_def baseConfig_pagination_def get_prop_def)

lemma opt_prop_default_options:
  "opt_prop (opt_prop (if options = JUndefined then JObject [] else options) p) f =
   opt_prop (opt_prop options p) f"
  by (simp add: opt_prop_def)

text \<open>
  C10. Let the configuration carry the pagination defaults of config.js (limit 20, page 1),
  and let the world be the list of requests the REST client received. Every request
  \<open>Listings.get\<close> sends carries the supplied limit and page when they are truthy and the
  defaults otherwise; so a supplied \<open>page: 0\<close> or \<open>limit: 0\<close> (like an absent one) is
  replaced by 1 or 20, and no request carries the number 0 as its page or limit.
\<close>

theorem listings_falsy_pagination_gets_defaults:
  fixes d :: "jsval list deps"
  assumes "get_prop (sdk_config d) ''pagination'' = Inr baseConfig_pagination"
      and "\<forall>req w. snd (api_get d req w) = w @ [req]"
      and "\<forall>e w. snd (error_handle d e w) = w"
      and "req \<in> set (drop (length w) (snd (Listings_get d options w)))"
  shows "get_path req [''params'', ''limit''] =
           Inr (if truthy (opt_prop (opt_prop options ''pagination'') ''limit'')
                then opt_prop (opt_prop options ''pagination'') ''limit'' else JNumber 20) \<and>
         get_path req [''params'', ''page''] =
           Inr (if truthy (opt_prop (opt_prop options ''pagination'') ''page'')
                then opt_prop (opt_prop options ''pagination'') ''page'' else JNumber 1) \<and>
         get_path req [''params'', ''limit''] \<noteq> Inr (JNumber 0) \<and>
         get_path req [''params'', ''page''] \<noteq> Inr (JNumber 0)"
proof -
  define opts where "opts = (if options = JUndefined then JObject [] else options)"
  define lim where "lim = (if truthy (opt_prop (opt_prop options ''pagination'') ''limit'')
                then opt_prop (opt_prop options ''pagination'') ''limit'' else JNumber 20)"
  define pg where "pg = (if truthy (opt_prop (opt_prop options ''pagination'') ''page'')
                then opt_prop (opt_prop options ''pagination'') ''page'' else JNumber 1)"
  have l: "pagination_or_default (sdk_config d) opts ''limit'' = Inr lim"
    and p: "pagination_or_default (sdk_config d) opts ''page'' = Inr pg"
    using pagination_default [OF assms(1), of opts]
    by (simp_all add: opts_def lim_def pg_def opt_prop_default_options)
  have nz: "lim \<noteq> JNumber 0" "pg \<noteq> JNumber 0"
    by (auto simp: lim_def pg_def)
  define joined where "joined = array_join (js_or (opt_prop (opt_prop opts ''filters'') ''nftAddresses'') (JArray []))"
  have rq: "Listings_request (sdk_config d) opts =
      thenE joined (\<lambda>j. Inr (JObject [(''uri'', JString ''v0.1/listings''),
                   (''params'', JObject [(''nftAddresses'', j), (''page'', pg), (''limit'', lim)])]))"
    by (simp add: Listings_request_def l p thenE_def joined_def)
  show ?thesis
  proof (cases joined)
    case (Inl e)
    with assms(3,4) rq show ?thesis
      by (simp add: Listings_get_def try_catch_def thenE_def opts_def [symmetric] Let_def)
  next
    case (Inr j)
    define sent where "sent = JObject [(''uri'', JString ''v0.1/listings''),
                   (''params'', JObject [(''nftAddresses'', j), (''page'', pg), (''limit'', lim)])]"
    from Inr rq have rq': "Listings_request (sdk_config d) opts = Inr sent"
      by (simp add: thenE_def sent_def)
    obtain x w' where a: "api_get d sent w = (x, w')" by (cases "api_get d sent w") auto
    with assms(2) have w': "w' = w @ [sent]" by (metis snd_conv)
    have "snd (Listings_get d options w) = w @ [sent]"
      using rq' a w' assms(3)
      by (auto simp: Listings_get_def try_catch_def opts_def [symmetric] Let_def
          split: sum.splits prod.splits)
    with assms(4) have "req = sent" by simp
    with nz show ?thesis
      by (simp add: sent_def get_prop_def lim_def [symmetric] pg_def [symmetric])
  qed
qed

theorem listings_falsy_pagination_gets_defaults_witness:
  "snd (Listings_get rest_spy
      (JObject [(''pagination'', JObject [(''page'', JNumber 0), (''limit'', JNumber 0)])]) []) =
     [JObject [(''uri'', JString ''v0.1/listings''),
               (''params'', JObject [(''nftAddresses'', JString []),
                                     (''page'', JNumber 1), (''limit'', JNumber 20)])]] \<and>
   get_path (JObject [(''uri'', JString ''v0.1/listings''),
               (''params'', JObject [(''nftAddresses'', JString []),
                                     (''page'', JNumber 1), (''limit'', JNumber 20)])])
      [''params'', ''page''] = Inr (JNumber 1)"
proof -
  define options where
    "options = JObject [(''pagination'', JObject [(''page'', JNumber 0), (''limit'', JNumber 0)])]"
  define sent where
    "sent = JObject [(''uri'', JString ''v0.1/listings''),
               (''params'', JObject [(''nftAddresses'', JString []),
                                     (''page'', JNumber 1), (''limit'', JNumber 20)])]"
  have c: "get_prop (sdk_config rest_spy) ''pagination'' = Inr baseConfig_pagination"
    by (simp add: rest_spy_def sample_config_def baseConfig_pagination_def get_prop_def)
  have a: "\<forall>req w. snd (api_get rest_spy req w) = w @ [req]"
    and h: "\<forall>e w. snd (error_handle rest_spy e w) = w"
    by (simp_all add: rest_spy_def)
  have g: "snd (Listings_get rest_spy options []) = [sent]"
    by (simp add: Listings_get_def Listings_request_def pagination_or_default_def rest_spy_def
        sample_config_def options_def sent_def try_catch_def thenE_def get_prop_def opt_prop_def
        js_or_def array_join_def array_map_def Let_def)
  then have m: "sent \<in> set (drop (length ([] :: jsval list)) (snd (Listings_get rest_spy options [])))"
    by simp
  have f: "\<not> truthy (opt_prop (opt_prop options ''pagination'') ''page'')"
    by (simp add: options_def opt_prop_def)
  from listings_falsy_pagination_gets_defaults [OF c a h m] f g show ?thesis
    unfolding options_def sent_def by simp
qed

section \<open>Amounts as strings\<close>

lemmas number_eval =
  number_to_string_def pos_number_to_string_def number_to_locale_string_def bigint_to_string_def
  strip_zeros_def shortest_decimal_def shortest_from.simps dec_digits.simps digit_char_def
  bit_length.simps round_to_double_def is_double_def Let_def

lemma digit_value_digit_char: "d < 10 \<Longrightarrow> digit_value (digit_char d) = d"
proof -
  assume "d < 10"
  then have "d \<in> {0, 1, 2, 3, 4, 5, 6, 7, 8, 9}" by auto
  then show ?thesis
    by (auto simp: digit_value_def digit_char_def)
qed

lemma parse_digits_snoc: "parse_digits (ds @ [c]) = 10 * parse_digits ds + digit_value c"
  by (simp add: parse_digits_def)

text \<open>A BigInt, and a string of digits, go through both serializers unchanged: the digits
  written are those of the integer, and read back as it.\<close>

lemma parse_dec_digits: "parse_digits (dec_digits n) = n"
proof (induction n rule: dec_digits.induct)
  case (1 n)
  show ?case
  proof (cases "n < 10")
    case True
    then show ?thesis
      by (subst dec_digits.simps) (simp add: parse_digits_def digit_value_digit_char)
  next
    case False
    with 1 have "parse_digits (dec_digits (n div 10)) = n div 10" by simp
    with False show ?thesis
      by (subst dec_digits.simps) (simp add: parse_digits_snoc digit_value_digit_char)
  qed
qed

lemma bigint_amount_exact:
  "0 \<le> n \<Longrightarrow> serializer_of k (JBigInt n) = Inr (JString (dec_digits (nat n)))"
  by (cases k) (simp_all add: call_String_def call_toLocaleString_def bigint_to_string_def)

lemma string_amount_unchanged: "serializer_of k (JString s) = Inr (JString s)"
  by (cases k) (simp_all add: call_String_def call_toLocaleString_def)

lemma String_1e21: "js_to_string (JNumber 1000000000000000000000) = ''1e+21''"
  by (simp add: number_eval)

lemma String_11e20: "js_to_string (JNumber 1100000000000000000000) = ''1.1e+21''"
  by (simp add: number_eval)

lemma toLocaleString_1e21:
  "to_locale_string (JNumber 1000000000000000000000) = ''1000000000000000000000''"
  by (simp add: number_eval)

lemma toLocaleString_11e20:
  "to_locale_string (JNumber 1100000000000000000000) = ''1100000000000000000000''"
  by (simp add: number_eval)

lemma is_double_1e21: "is_double 1000000000000000000000"
  by (simp add: number_eval)

lemma is_double_11e20: "is_double 1100000000000000000000"
  by (simp add: number_eval)

text \<open>
  C2 at its failing input. The principal \<open>1e21\<close> and the repayment \<open>1.1e21\<close> are integers
  above \<open>2^53\<close> that a Number holds exactly. The collection v2.3 adapter, which applies
  \<open>String\<close>, sends them to the contract as \<open>'1e+21'\<close> and \<open>'1.1e+21'\<close>; the v2.3 adapter, which
  applies \<open>toLocaleString('fullwide', { useGrouping: false })\<close>, sends all their digits.
\<close>

theorem collection_acceptOffer_sends_exponent_notation:
  "is_double 1000000000000000000000 \<and> is_double 1100000000000000000000 \<and>
   snd (snd (LoansFixedCollectionV2_3_acceptOffer (large_offer ''v2-3.loan.fixed.collection'')
      (fresh_adapter (mock_backend (Inr 7) (Inr (receipt_with_status (JNumber 1))))) [])) =
     [FactoryCreate (JObject [(''address'', JString ''0xD0C6e59B50C32530C627107F50Acc71958C4341F''),
                              (''abi'', JArray [])]),
      ContractCall 7 (call_request ''acceptCollectionOffer''
        [JObject [(''loanERC20Denomination'', JString ''0x00000000''),
                  (''loanPrincipalAmount'', JString ''1e+21''),
                  (''maximumRepaymentAmount'', JString ''1.1e+21''),
                  (''nftCollateralContract'', JString ''0x00000000''),
                  (''nftCollateralId'', JString ''42''),
                  (''referrer'', JString ''0x0000000000000000000000000000000000000000''),
                  (''loanDuration'', JNumber 604800),
                  (''loanAdminFeeInBasisPoints'', JNumber 500)],
         JObject [(''signer'', JString ''0x00000000''),
                  (''nonce'', JString ''314159265359''),
                  (''expiry'', JNumber 1690548548),
                  (''signature'', JString ''0x000000000000000000000000000000000000000000000000000'')],
         JObject [(''revenueSharePartner'', JString ''0x0000000000000000000000000000000000000000''),
                  (''referralFeeInBasisPoints'', JNumber 0)]])] \<and>
   snd (snd (LoansFixedV2_3_acceptOffer (large_offer ''v2-3.loan.fixed'')
      (fresh_adapter (mock_backend (Inr 7) (Inr (receipt_with_status (JNumber 1))))) [])) =
     [FactoryCreate (JObject [(''address'', JString ''0xd0a40eB7FD94eE97102BA8e9342243A2b2E22207''),
                              (''abi'', JArray [])]),
      ContractCall 7 (call_request ''acceptOffer''
        [JObject [(''loanERC20Denomination'', JString ''0x00000000''),
                  (''loanPrincipalAmount'', JString ''1000000000000000000000''),
                  (''maximumRepaymentAmount'', JString ''1100000000000000000000''),
                  (''nftCollateralContract'', JString ''0x00000000''),
                  (''nftCollateralId'', JString ''42''),
                  (''referrer'', JString ''0x0000000000000000000000000000000000000000''),
                  (''loanDuration'', JNumber 604800),
                  (''loanAdminFeeInBasisPoints'', JNumber 500)],
         JObject [(''signer'', JString ''0x00000000''),
                  (''nonce'', JString ''314159265359''),
                  (''expiry'', JNumber 1690548548),
                  (''signature'', JString ''0x000000000000000000000000000000000000000000000000000'')],
         JObject [(''revenueSharePartner'', JString ''0x0000000000000000000000000000000000000000''),
                  (''referralFeeInBasisPoints'', JNumber 0)]])]"
proof -
  have p: "get_path (large_offer nm) [''offer'', ''terms'', ''loan'', ''principal''] =
      Inr (JNumber 1000000000000000000000)"
    and r: "get_path (large_offer nm) [''offer'', ''terms'', ''loan'', ''repayment''] =
      Inr (JNumber 1100000000000000000000)" for nm
    by (simp_all add: large_offer_def get_prop_def)
  have others: "get_path (large_offer nm) [''offer'', ''terms'', ''loan'', ''currency''] = Inr (JString ''0x00000000'')"
    "get_path (large_offer nm) [''offer'', ''nft'', ''address''] = Inr (JString ''0x00000000'')"
    "get_path (large_offer nm) [''offer'', ''nft'', ''id''] = Inr (JString ''42'')"
    "get_path (large_offer nm) [''offer'', ''terms'', ''loan'', ''duration''] = Inr (JNumber 604800)"
    "get_path (large_offer nm) [''offer'', ''nftfi'', ''fee'', ''bps''] = Inr (JNumber 500)"
    "get_path (large_offer nm) [''offer'', ''lender'', ''address''] = Inr (JString ''0x00000000'')"
    "get_path (large_offer nm) [''offer'', ''lender'', ''nonce''] = Inr (JString ''314159265359'')"
    "get_path (large_offer nm) [''offer'', ''terms'', ''loan'', ''expiry''] = Inr (JNumber 1690548548)"
    "get_path (large_offer nm) [''offer'', ''signature''] =
       Inr (JString ''0x000000000000000000000000000000000000000000000000000'')" for nm
    by (simp_all add: large_offer_def get_prop_def)
  have c: "call_String (JNumber 1000000000000000000000) = Inr (JString ''1e+21'')"
    "call_String (JNumber 1100000000000000000000) = Inr (JString ''1.1e+21'')"
    by (simp_all only: call_String_def String_1e21 String_11e20)
  have l: "call_toLocaleString (JNumber 1000000000000000000000) = Inr (JString ''1000000000000000000000'')"
    "call_toLocaleString (JNumber 1100000000000000000000) = Inr (JString ''1100000000000000000000'')"
    by (simp_all add: call_toLocaleString_def toLocaleString_1e21 toLocaleString_11e20
        del: to_locale_string.simps)
  have ca: "offer_args call_String (large_offer nm) = Inr
        [JObject [(''loanERC20Denomination'', JString ''0x00000000''),
                  (''loanPrincipalAmount'', JString ''1e+21''),
                  (''maximumRepaymentAmount'', JString ''1.1e+21''),
                  (''nftCollateralContract'', JString ''0x00000000''),
                  (''nftCollateralId'', JString ''42''),
                  (''referrer'', JString ''0x0000000000000000000000000000000000000000''),
                  (''loanDuration'', JNumber 604800),
                  (''loanAdminFeeInBasisPoints'', JNumber 500)],
         JObject [(''signer'', JString ''0x00000000''),
                  (''nonce'', JString ''314159265359''),
                  (''expiry'', JNumber 1690548548),
                  (''signature'', JString ''0x000000000000000000000000000000000000000000000000000'')],
         JObject [(''revenueSharePartner'', JString ''0x0000000000000000000000000000000000000000''),
                  (''referralFeeInBasisPoints'', JNumber 0)]]" for nm
    unfolding offer_args_def p r others by (simp add: thenE_def c zero_address_def)
  have la: "offer_args call_toLocaleString (large_offer nm) = Inr
        [JObject [(''loanERC20Denomination'', JString ''0x00000000''),
                  (''loanPrincipalAmount'', JString ''1000000000000000000000''),
                  (''maximumRepaymentAmount'', JString ''1100000000000000000000''),
                  (''nftCollateralContract'', JString ''0x00000000''),
                  (''nftCollateralId'', JString ''42''),
                  (''referrer'', JString ''0x0000000000000000000000000000000000000000''),
                  (''loanDuration'', JNumber 604800),
                  (''loanAdminFeeInBasisPoints'', JNumber 500)],
         JObject [(''signer'', JString ''0x00000000''),
                  (''nonce'', JString ''314159265359''),
                  (''expiry'', JNumber 1690548548),
                  (''signature'', JString ''0x000000000000000000000000000000000000000000000000000'')],
         JObject [(''revenueSharePartner'', JString ''0x0000000000000000000000000000000000000000''),
                  (''referralFeeInBasisPoints'', JNumber 0)]]" for nm
    unfolding offer_args_def p r others by (simp add: thenE_def l zero_address_def)
  have rest1: "snd (snd (receipt_result (call_entry LoansFixedCollectionV2_3_contract fn (Inr xs)
        (fresh_adapter (mock_backend (Inr 7) (Inr (receipt_with_status (JNumber 1))))) []))) =
      [FactoryCreate (JObject [(''address'', JString ''0xD0C6e59B50C32530C627107F50Acc71958C4341F''),
                              (''abi'', JArray [])]),
       ContractCall 7 (call_request fn xs)]" for fn xs
    by (simp add: receipt_result_def call_entry_def LoansFixedCollectionV2_3_contract_def
        factory_create_at_def fresh_adapter_def sample_config_def get_prop_def mock_backend_def
        contract_call_def Let_def)
  have rest2: "snd (snd (receipt_result (call_entry LoansFixedV2_3_contract fn (Inr xs)
        (fresh_adapter (mock_backend (Inr 7) (Inr (receipt_with_status (JNumber 1))))) []))) =
      [FactoryCreate (JObject [(''address'', JString ''0xd0a40eB7FD94eE97102BA8e9342243A2b2E22207''),
                              (''abi'', JArray [])]),
       ContractCall 7 (call_request fn xs)]" for fn xs
    by (simp add: receipt_result_def call_entry_def LoansFixedV2_3_contract_def
        factory_create_at_def fresh_adapter_def sample_config_def get_prop_def mock_backend_def
        contract_call_def Let_def)
  show ?thesis
    unfolding LoansFixedCollectionV2_3_acceptOffer_def LoansFixedV2_3_acceptOffer_def accept_with_def
      ca la sum.case rest1 rest2
    using is_double_1e21 is_double_11e20 by simp
qed

section \<open>The entry point each operation invokes\<close>

lemma abi_functions_collection_v2:
  "abi_functions mainnet_collection_v2_abi =
     [''cancelLoanCommitmentBeforeLoanHasBegun'', ''liquidateOverdueLoan'', ''payBackLoan'',
      ''acceptOffer'', ''getWhetherNonceHasBeenUsedForUser'']"
  by (simp add: abi_functions_def abi_function_name_def List.map_filter_simps
      mainnet_collection_v2_abi_def)

lemma abi_functions_v2:
  "abi_functions mainnet_v2_abi =
     [''cancelLoanCommitmentBeforeLoanHasBegun'', ''liquidateOverdueLoan'', ''payBackLoan'',
      ''acceptOffer'', ''getWhetherNonceHasBeenUsedForUser'']"
  by (simp add: abi_functions_def abi_function_name_def List.map_filter_simps mainnet_v2_abi_def)

lemma abi_functions_collection_v2_3:
  "abi_functions mainnet_collection_v2_3_abi =
     [''cancelLoanCommitmentBeforeLoanHasBegun'', ''liquidateOverdueLoan'', ''payBackLoan'',
      ''acceptCollectionOffer'', ''acceptOffer'', ''getWhetherNonceHasBeenUsedForUser'']"
  by (simp add: abi_functions_def abi_function_name_def List.map_filter_simps
      mainnet_collection_v2_3_abi_def)

lemma getter_held: "contract a = Some h \<Longrightarrow> getter_of k a tr = (Inr h, a, tr)"
  by (cases k)
    (simp_all add: LoansFixedV2_1_contract_def LoansFixedV2_3_contract_def
      LoansFixedCollectionV2_3_contract_def)

lemma getter_creates:
  assumes "contract a = None" "k \<noteq> FixedV2_1"
      and "get_path (config a) (config_path k @ [''address'']) = Inr address"
      and "get_path (config a) (config_path k @ [''abi'']) = Inr abi"
      and "factory_create (contractFactory a) tr (JObject [(''address'', address), (''abi'', abi)]) = Inr h"
  shows "getter_of k a tr =
           (Inr h, a\<lparr>contract := Some h\<rparr>,
            tr @ [FactoryCreate (JObject [(''address'', address), (''abi'', abi)])])"
  using assms
  by (cases k)
    (simp_all add: LoansFixedV2_3_contract_def LoansFixedCollectionV2_3_contract_def
      factory_create_at_def Let_def del: get_path.simps)

lemma call_entry_through:
  assumes "the_contract a tr = (Inr h, a', tr')"
  shows "call_entry the_contract fn (Inr xs) a tr =
           (handle_call (contractFactory a') tr' h (call_request fn xs), a',
            tr' @ [ContractCall h (call_request fn xs)])"
  using assms by (simp add: call_entry_def contract_call_def Let_def)

lemma run_with_arguments:
  assumes "(op = AcceptOffer \<and> offer_args (serializer_of k) options = Inr xs) \<or>
           ((op = LiquidateOverdueLoan \<or> op = PayBackLoan) \<and>
              get_path options [''loan'', ''id''] = Inr v \<and> xs = [v]) \<or>
           (op = CancelLoanCommitmentBeforeLoanHasBegun \<and>
              get_path options [''offer'', ''nonce''] = Inr v \<and> xs = [v])"
  shows "run k op options a tr =
           (case call_entry (getter_of k) (entry_point k op) (Inr xs) a tr of
              (x, a', tr') \<Rightarrow>
                (case x of Inl e \<Rightarrow> failure_shape op | Inr result \<Rightarrow> result_shape op result,
                 a', tr'))"
  using assms
  by (cases op)
    (auto simp: run_unfold path_arg_def thenE_def receipt_result_def success_result_def
      simp del: get_path.simps split: sum.splits prod.splits)

lemma entry_point_declared: "entry_point k op \<in> set (abi_functions (registered_abi k))"
  by (cases k; cases op)
    (simp_all add: abi_functions_v2 abi_functions_collection_v2_3)

lemma named_entry_point_only:
  assumes "run k op options a tr = (r, a', tr')"
      and "ContractCall h req \<in> set (added tr tr')"
  shows "get_prop req ''function'' = Inr (JString (entry_point k op))"
proof -
  from run_shape [OF assms(1)] assms(2)
  have "\<exists>xs. req = call_request (entry_point k op) xs"
    by (elim conjE disjE exE) auto
  then show ?thesis
    by (auto simp: call_request_def get_prop_def)
qed

lemma large_offer_paths:
  "get_path (large_offer nm) [''offer'', ''terms'', ''loan'', ''currency''] = Inr (JString ''0x00000000'')"
  "get_path (large_offer nm) [''offer'', ''terms'', ''loan'', ''principal''] = Inr (JNumber 1000000000000000000000)"
  "get_path (large_offer nm) [''offer'', ''terms'', ''loan'', ''repayment''] = Inr (JNumber 1100000000000000000000)"
  "get_path (large_offer nm) [''offer'', ''nft'', ''address''] = Inr (JString ''0x00000000'')"
  "get_path (large_offer nm) [''offer'', ''nft'', ''id''] = Inr (JString ''42'')"
  "get_path (large_offer nm) [''offer'', ''terms'', ''loan'', ''duration''] = Inr (JNumber 604800)"
  "get_path (large_offer nm) [''offer'', ''nftfi'', ''fee'', ''bps''] = Inr (JNumber 500)"
  "get_path (large_offer nm) [''offer'', ''lender'', ''address''] = Inr (JString ''0x00000000'')"
  "get_path (large_offer nm) [''offer'', ''lender'', ''nonce''] = Inr (JString ''314159265359'')"
  "get_path (large_offer nm) [''offer'', ''terms'', ''loan'', ''expiry''] = Inr (JNumber 1690548548)"
  "get_path (large_offer nm) [''offer'', ''signature''] =
     Inr (JString ''0x000000000000000000000000000000000000000000000000000'')"
  by (simp_all add: large_offer_def get_prop_def)

lemma large_offer_args_String:
  "offer_args call_String (large_offer nm) = Inr (large_offer_args ''1e+21'' ''1.1e+21'')"
proof -
  have c: "call_String (JNumber 1000000000000000000000) = Inr (JString ''1e+21'')"
    "call_String (JNumber 1100000000000000000000) = Inr (JString ''1.1e+21'')"
    by (simp_all only: call_String_def String_1e21 String_11e20)
  show ?thesis
    unfolding offer_args_def large_offer_paths
    by (simp add: thenE_def c zero_address_def large_offer_args_def)
qed

lemma large_offer_args_toLocaleString:
  "offer_args call_toLocaleString (large_offer nm) =
     Inr (large_offer_args ''1000000000000000000000'' ''1100000000000000000000'')"
proof -
  have l: "call_toLocaleString (JNumber 1000000000000000000000) = Inr (JString ''1000000000000000000000'')"
    "call_toLocaleString (JNumber 1100000000000000000000) = Inr (JString ''1100000000000000000000'')"
    by (simp_all add: call_toLocaleString_def toLocaleString_1e21 toLocaleString_11e20
        del: to_locale_string.simps)
  show ?thesis
    unfolding offer_args_def large_offer_paths
    by (simp add: thenE_def l zero_address_def large_offer_args_def)
qed

text \<open>
  C8 as stated fails for the v2 collection contract. An adapter's handle is created from
  the address and ABI registered for its version; the ABI registered under
  \<open>v2.loan.fixed.collection\<close> declares \<open>acceptOffer\<close> and no \<open>acceptCollectionOffer\<close>, so that
  contract has no entry point of that name to invoke, while the ABI of the v2.3 collection
  contract declares both.
\<close>

theorem collection_v2_declares_no_acceptCollectionOffer:
  "''acceptCollectionOffer'' \<notin> set (abi_functions mainnet_collection_v2_abi) \<and>
   ''acceptOffer'' \<in> set (abi_functions mainnet_collection_v2_abi) \<and>
   ''acceptCollectionOffer'' \<in> set (abi_functions mainnet_collection_v2_3_abi)"
  by (simp add: abi_functions_collection_v2 abi_functions_collection_v2_3)

text \<open>
  C8, amended. The statement is made for the adapters modelled here: the collection v2.3
  adapter and the individual v2.1 and v2.3 adapters, which expose the same four method
  names. Once an operation's arguments are built and its adapter holds a handle (or, for
  the two lazy adapters, the factory returns one), the operation makes exactly one
  contract call, on that handle and with those arguments, and returns the shaped answer of
  that call. The entry point it names is \<open>acceptCollectionOffer\<close> for acceptOffer of the
  collection adapter and the method's own name in every other case (\<open>acceptOffer\<close> for
  the individual adapters); the ABI registered for the adapter declares it; and no
  operation ever names another entry point.
\<close>

theorem operations_invoke_their_entry_point:
  assumes "(op = AcceptOffer \<and> offer_args (serializer_of k) options = Inr xs) \<or>
           ((op = LiquidateOverdueLoan \<or> op = PayBackLoan) \<and>
              get_path options [''loan'', ''id''] = Inr v \<and> xs = [v]) \<or>
           (op = CancelLoanCommitmentBeforeLoanHasBegun \<and>
              get_path options [''offer'', ''nonce''] = Inr v \<and> xs = [v])"
  shows "(\<forall>h. contract a = Some h \<longrightarrow>
            run k op options a tr =
              (case handle_call (contractFactory a) tr h (call_request (entry_point k op) xs) of
                 Inl e \<Rightarrow> failure_shape op
               | Inr result \<Rightarrow> result_shape op result,
               a, tr @ [ContractCall h (call_request (entry_point k op) xs)])) \<and>
         (\<forall>h address abi.
            contract a = None \<and> k \<noteq> FixedV2_1 \<and>
            get_path (config a) (config_path k @ [''address'']) = Inr address \<and>
            get_path (config a) (config_path k @ [''abi'']) = Inr abi \<and>
            factory_create (contractFactory a) tr (JObject [(''address'', address), (''abi'', abi)]) = Inr h \<longrightarrow>
            run k op options a tr =
              (case handle_call (contractFactory a)
                      (tr @ [FactoryCreate (JObject [(''address'', address), (''abi'', abi)])]) h
                      (call_request (entry_point k op) xs) of
                 Inl e \<Rightarrow> failure_shape op
               | Inr result \<Rightarrow> result_shape op result,
               a\<lparr>contract := Some h\<rparr>,
               tr @ [FactoryCreate (JObject [(''address'', address), (''abi'', abi)]),
                     ContractCall h (call_request (entry_point k op) xs)])) \<and>
         entry_point k op =
           (if k = FixedCollectionV2_3 \<and> op = AcceptOffer then ''acceptCollectionOffer''
            else method_name op) \<and>
         entry_point k op \<in> set (abi_functions (registered_abi k)) \<and>
         (\<forall>r a' tr' h req.
            run k op options a tr = (r, a', tr') \<and> ContractCall h req \<in> set (added tr tr') \<longrightarrow>
            get_prop req ''function'' = Inr (JString (entry_point k op)))"
proof -
  note r = run_with_arguments [OF assms, of a tr]
  have held: "run k op options a tr =
              (case handle_call (contractFactory a) tr h (call_request (entry_point k op) xs) of
                 Inl e \<Rightarrow> failure_shape op
               | Inr result \<Rightarrow> result_shape op result,
               a, tr @ [ContractCall h (call_request (entry_point k op) xs)])"
    if "contract a = Some h" for h
    unfolding r call_entry_through [of "getter_of k" a tr, OF getter_held [OF that, of k tr]] by simp
  have lazy: "run k op options a tr =
              (case handle_call (contractFactory a)
                      (tr @ [FactoryCreate (JObject [(''address'', address), (''abi'', abi)])]) h
                      (call_request (entry_point k op) xs) of
                 Inl e \<Rightarrow> failure_shape op
               | Inr result \<Rightarrow> result_shape op result,
               a\<lparr>contract := Some h\<rparr>,
               tr @ [FactoryCreate (JObject [(''address'', address), (''abi'', abi)]),
                     ContractCall h (call_request (entry_point k op) xs)])"
    if "contract a = None" "k \<noteq> FixedV2_1"
      "get_path (config a) (config_path k @ [''address'']) = Inr address"
      "get_path (config a) (config_path k @ [''abi'']) = Inr abi"
      "factory_create (contractFactory a) tr (JObject [(''address'', address), (''abi'', abi)]) = Inr h"
    for h address abi
    unfolding r call_entry_through [of "getter_of k" a tr, OF getter_creates [OF that]] by simp
  from held lazy entry_point_eq [of k op] entry_point_declared [of k op] named_entry_point_only
  show ?thesis by blast
qed

theorem operations_invoke_their_entry_point_witness:
  "(\<forall>k. run k LiquidateOverdueLoan (sample_loan ''v2-3.loan.fixed'')
          \<lparr>config = sample_config,
            contractFactory = mock_backend (Inr 7) (Inr (receipt_with_status (JNumber 1))),
            contract = Some 7\<rparr> [] =
        (JBool True,
         \<lparr>config = sample_config,
           contractFactory = mock_backend (Inr 7) (Inr (receipt_with_status (JNumber 1))),
           contract = Some 7\<rparr>,
         [ContractCall 7 (call_request ''liquidateOverdueLoan'' [JNumber 3])])) \<and>
   (\<forall>k. run k PayBackLoan (sample_loan ''v2-3.loan.fixed'')
          \<lparr>config = sample_config,
            contractFactory = mock_backend (Inr 7) (Inr (receipt_with_status (JNumber 1))),
            contract = Some 7\<rparr> [] =
        (JObject [(''receipt'', receipt_with_status (JNumber 1)), (''status'', JBool True)],
         \<lparr>config = sample_config,
           contractFactory = mock_backend (Inr 7) (Inr (receipt_with_status (JNumber 1))),
           contract = Some 7\<rparr>,
         [ContractCall 7 (call_request ''payBackLoan'' [JNumber 3])])) \<and>
   (\<forall>k. run k CancelLoanCommitmentBeforeLoanHasBegun (sample_loan ''v2-3.loan.fixed'')
          \<lparr>config = sample_config,
            contractFactory = mock_backend (Inr 7) (Inr (receipt_with_status (JNumber 1))),
            contract = Some 7\<rparr> [] =
        (JBool True,
         \<lparr>config = sample_config,
           contractFactory = mock_backend (Inr 7) (Inr (receipt_with_status (JNumber 1))),
           contract = Some 7\<rparr>,
         [ContractCall 7 (call_request ''cancelLoanCommitmentBeforeLoanHasBegun'' [JString ''42''])])) \<and>
   run FixedV2_1 AcceptOffer (large_offer ''v2-1.loan.fixed'')
       \<lparr>config = sample_config,
         contractFactory = mock_backend (Inr 7) (Inr (receipt_with_status (JNumber 1))),
         contract = Some 7\<rparr> [] =
     (JObject [(''receipt'', receipt_with_status (JNumber 1)), (''status'', JBool True)],
      \<lparr>config = sample_config,
        contractFactory = mock_backend (Inr 7) (Inr (receipt_with_status (JNumber 1))),
        contract = Some 7\<rparr>,
      [ContractCall 7 (call_request ''acceptOffer''
         (large_offer_args ''1000000000000000000000'' ''1100000000000000000000''))]) \<and>
   run FixedV2_3 AcceptOffer (large_offer ''v2-3.loan.fixed'')
       \<lparr>config = sample_config,
         contractFactory = mock_backend (Inr 7) (Inr (receipt_with_status (JNumber 1))),
         contract = Some 7\<rparr> [] =
     (JObject [(''receipt'', receipt_with_status (JNumber 1)), (''status'', JBool True)],
      \<lparr>config = sample_config,
        contractFactory = mock_backend (Inr 7) (Inr (receipt_with_status (JNumber 1))),
        contract = Some 7\<rparr>,
      [ContractCall 7 (call_request ''acceptOffer''
         (large_offer_args ''1000000000000000000000'' ''1100000000000000000000''))]) \<and>
   run FixedCollectionV2_3 AcceptOffer (large_offer ''v2-3.loan.fixed.collection'')
       \<lparr>config = sample_config,
         contractFactory = mock_backend (Inr 7) (Inr (receipt_with_status (JNumber 1))),
         contract = Some 7\<rparr> [] =
     (JObject [(''receipt'', receipt_with_status (JNumber 1)), (''status'', JBool True)],
      \<lparr>config = sample_config,
        contractFactory = mock_backend (Inr 7) (Inr (receipt_with_status (JNumber 1))),
        contract = Some 7\<rparr>,
      [ContractCall 7 (call_request ''acceptCollectionOffer''
         (large_offer_args ''1e+21'' ''1.1e+21''))]) \<and>
   run FixedCollectionV2_3 AcceptOffer (large_offer ''v2-3.loan.fixed.collection'')
       (fresh_adapter (mock_backend (Inr 7) (Inr (receipt_with_status (JNumber 1))))) [] =
     (JObject [(''receipt'', receipt_with_status (JNumber 1)), (''status'', JBool True)],
      \<lparr>config = sample_config,
        contractFactory = mock_backend (Inr 7) (Inr (receipt_with_status (JNumber 1))),
        contract = Some 7\<rparr>,
      [FactoryCreate (JObject [(''address'', JString ''0xD0C6e59B50C32530C627107F50Acc71958C4341F''),
                               (''abi'', JArray [])]),
       ContractCall 7 (call_request ''acceptCollectionOffer''
         (large_offer_args ''1e+21'' ''1.1e+21''))]) \<and>
   run FixedV2_3 LiquidateOverdueLoan (sample_loan ''v2-3.loan.fixed'')
       (fresh_adapter (mock_backend (Inr 7) (Inr (receipt_with_status (JNumber 1))))) [] =
     (JBool True,
      \<lparr>config = sample_config,
        contractFactory = mock_backend (Inr 7) (Inr (receipt_with_status (JNumber 1))),
        contract = Some 7\<rparr>,
      [FactoryCreate (JObject [(''address'', JString ''0xd0a40eB7FD94eE97102BA8e9342243A2b2E22207''),
                               (''abi'', JArray [])]),
       ContractCall 7 (call_request ''liquidateOverdueLoan'' [JNumber 3])])"
proof -
  define be where "be = mock_backend (Inr 7) (Inr (receipt_with_status (JNumber 1)))"
  define held where "held = \<lparr>config = sample_config, contractFactory = be, contract = Some 7\<rparr>"
  have h: "contract held = Some 7" "contractFactory held = be"
    by (simp_all add: held_def)
  have answer: "handle_call be tr hd req = Inr (receipt_with_status (JNumber 1))" for tr hd req
    by (simp add: be_def mock_backend_def)
  have st: "status_is_1 (receipt_with_status (JNumber 1))"
    by (simp add: status_is_1_def receipt_with_status_def opt_prop_def)
  have id: "get_path (sample_loan nm) [''loan'', ''id''] = Inr (JNumber 3)"
    and nonce: "get_path (sample_loan nm) [''offer'', ''nonce''] = Inr (JString ''42'')" for nm
    by (simp_all add: sample_loan_def get_prop_def)
  have liq: "run k LiquidateOverdueLoan (sample_loan ''v2-3.loan.fixed'') held [] =
      (JBool True, held, [ContractCall 7 (call_request ''liquidateOverdueLoan'' [JNumber 3])])" for k
    using operations_invoke_their_entry_point [where op = LiquidateOverdueLoan and k = k
        and options = "sample_loan ''v2-3.loan.fixed''" and xs = "[JNumber 3]" and v = "JNumber 3"
        and a = held and tr = "[]"] id h
    by (simp add: answer st del: get_path.simps)
  have pay: "run k PayBackLoan (sample_loan ''v2-3.loan.fixed'') held [] =
      (JObject [(''receipt'', receipt_with_status (JNumber 1)), (''status'', JBool True)], held,
       [ContractCall 7 (call_request ''payBackLoan'' [JNumber 3])])" for k
    using operations_invoke_their_entry_point [where op = PayBackLoan and k = k
        and options = "sample_loan ''v2-3.loan.fixed''" and xs = "[JNumber 3]" and v = "JNumber 3"
        and a = held and tr = "[]"] id h
    by (simp add: answer st del: get_path.simps)
  have cancel: "run k CancelLoanCommitmentBeforeLoanHasBegun (sample_loan ''v2-3.loan.fixed'') held [] =
      (JBool True, held,
       [ContractCall 7 (call_request ''cancelLoanCommitmentBeforeLoanHasBegun'' [JString ''42''])])" for k
    using operations_invoke_their_entry_point [where op = CancelLoanCommitmentBeforeLoanHasBegun
        and k = k and options = "sample_loan ''v2-3.loan.fixed''" and xs = "[JString ''42'']"
        and v = "JString ''42''" and a = held and tr = "[]"] nonce h
    by (simp add: answer st del: get_path.simps)
  have acc1: "run FixedV2_1 AcceptOffer (large_offer ''v2-1.loan.fixed'') held [] =
      (JObject [(''receipt'', receipt_with_status (JNumber 1)), (''status'', JBool True)], held,
       [ContractCall 7 (call_request ''acceptOffer''
          (large_offer_args ''1000000000000000000000'' ''1100000000000000000000''))])"
    using operations_invoke_their_entry_point [where op = AcceptOffer and k = FixedV2_1
        and options = "large_offer ''v2-1.loan.fixed''"
        and xs = "large_offer_args ''1000000000000000000000'' ''1100000000000000000000''"
        and a = held and tr = "[]"] h
    by (simp add: answer st large_offer_args_toLocaleString del: run.simps)
  have acc3: "run FixedV2_3 AcceptOffer (large_offer ''v2-3.loan.fixed'') held [] =
      (JObject [(''receipt'', receipt_with_status (JNumber 1)), (''status'', JBool True)], held,
       [ContractCall 7 (call_request ''acceptOffer''
          (large_offer_args ''1000000000000000000000'' ''1100000000000000000000''))])"
    using operations_invoke_their_entry_point [where op = AcceptOffer and k = FixedV2_3
        and options = "large_offer ''v2-3.loan.fixed''"
        and xs = "large_offer_args ''1000000000000000000000'' ''1100000000000000000000''"
        and a = held and tr = "[]"] h
    by (simp add: answer st large_offer_args_toLocaleString del: run.simps)
  have accc: "run FixedCollectionV2_3 AcceptOffer (large_offer ''v2-3.loan.fixed.collection'') held [] =
      (JObject [(''receipt'', receipt_with_status (JNumber 1)), (''status'', JBool True)], held,
       [ContractCall 7 (call_request ''acceptCollectionOffer'' (large_offer_args ''1e+21'' ''1.1e+21''))])"
    using operations_invoke_their_entry_point [where op = AcceptOffer and k = FixedCollectionV2_3
        and options = "large_offer ''v2-3.loan.fixed.collection''"
        and xs = "large_offer_args ''1e+21'' ''1.1e+21''"
        and a = held and tr = "[]"] h
    by (simp add: answer st large_offer_args_String del: run.simps)
  have fresh: "contract (fresh_adapter be) = None" "contractFactory (fresh_adapter be) = be"
    "config (fresh_adapter be) = sample_config" "(fresh_adapter be)\<lparr>contract := Some 7\<rparr> = held"
    by (simp_all add: fresh_adapter_def held_def)
  have made: "factory_create be tr req = Inr 7" for tr req
    by (simp add: be_def mock_backend_def)
  have cc: "get_path sample_config (config_path FixedCollectionV2_3 @ [''address'']) =
        Inr (JString ''0xD0C6e59B50C32530C627107F50Acc71958C4341F'')"
      "get_path sample_config (config_path FixedCollectionV2_3 @ [''abi'']) = Inr (JArray [])"
      "get_path sample_config (config_path FixedV2_3 @ [''address'']) =
        Inr (JString ''0xd0a40eB7FD94eE97102BA8e9342243A2b2E22207'')"
      "get_path sample_config (config_path FixedV2_3 @ [''abi'']) = Inr (JArray [])"
    by (simp_all add: sample_config_def get_prop_def)
  have lazyc: "run FixedCollectionV2_3 AcceptOffer (large_offer ''v2-3.loan.fixed.collection'')
       (fresh_adapter be) [] =
     (JObject [(''receipt'', receipt_with_status (JNumber 1)), (''status'', JBool True)], held,
      [FactoryCreate (JObject [(''address'', JString ''0xD0C6e59B50C32530C627107F50Acc71958C4341F''),
                               (''abi'', JArray [])]),
       ContractCall 7 (call_request ''acceptCollectionOffer'' (large_offer_args ''1e+21'' ''1.1e+21''))])"
    using operations_invoke_their_entry_point [where op = AcceptOffer and k = FixedCollectionV2_3
        and options = "large_offer ''v2-3.loan.fixed.collection''"
        and xs = "large_offer_args ''1e+21'' ''1.1e+21''"
        and a = "fresh_adapter be" and tr = "[]"] fresh cc made
    by (simp add: answer st large_offer_args_String del: run.simps get_path.simps config_path.simps)
  have lazyl: "run FixedV2_3 LiquidateOverdueLoan (sample_loan ''v2-3.loan.fixed'') (fresh_adapter be) [] =
     (JBool True, held,
      [FactoryCreate (JObject [(''address'', JString ''0xd0a40eB7FD94eE97102BA8e9342243A2b2E22207''),
                               (''abi'', JArray [])]),
       ContractCall 7 (call_request ''liquidateOverdueLoan'' [JNumber 3])])"
    using operations_invoke_their_entry_point [where op = LiquidateOverdueLoan and k = FixedV2_3
        and options = "sample_loan ''v2-3.loan.fixed''" and xs = "[JNumber 3]" and v = "JNumber 3"
        and a = "fresh_adapter be" and tr = "[]"] fresh cc made id
    by (simp add: answer st del: run.simps get_path.simps config_path.simps)
  from liq pay cancel acc1 acc3 accc lazyc lazyl show ?thesis
    unfolding held_def be_def by simp
qed

end
